theory Spec2Isabelle
  imports Complex_Main "HOL-Library.Word" "HOL-Library.AList"
begin

section \<open>Go strings\<close>

text \<open>
  A Go string is a sequence of bytes; it is modelled as a \<^typ>\<open>string\<close>.  The functions
  below are the ones of Go's \<open>strings\<close> package that the proxy calls, with the source's
  names.  \<open>ToUpper\<close> and \<open>ToLower\<close> map the ASCII letters and leave every other byte
  as it is: HTTP methods and header names are ASCII tokens.
\<close>

definition upper_char :: "char \<Rightarrow> char" where
  "upper_char c =
     (case map_of (zip ''abcdefghijklmnopqrstuvwxyz'' ''ABCDEFGHIJKLMNOPQRSTUVWXYZ'') c of
        Some u \<Rightarrow> u
      | None \<Rightarrow> c)"

definition lower_char :: "char \<Rightarrow> char" where
  "lower_char c =
     (case map_of (zip ''ABCDEFGHIJKLMNOPQRSTUVWXYZ'' ''abcdefghijklmnopqrstuvwxyz'') c of
        Some l \<Rightarrow> l
      | None \<Rightarrow> c)"

definition ToUpper :: "string \<Rightarrow> string" where
  "ToUpper s = map upper_char s"

definition ToLower :: "string \<Rightarrow> string" where
  "ToLower s = map lower_char s"

definition HasPrefix :: "string \<Rightarrow> string \<Rightarrow> bool" where
  "HasPrefix s p = (length p \<le> length s \<and> take (length p) s = p)"

definition HasSuffix :: "string \<Rightarrow> string \<Rightarrow> bool" where
  "HasSuffix s p = (length p \<le> length s \<and> drop (length s - length p) s = p)"

definition TrimSuffix :: "string \<Rightarrow> string \<Rightarrow> string" where
  "TrimSuffix s p = (if HasSuffix s p then take (length s - length p) s else s)"

fun Contains :: "string \<Rightarrow> string \<Rightarrow> bool" where
  "Contains [] sub = (sub = [])"
| "Contains (c # cs) sub = (HasPrefix (c # cs) sub \<or> Contains cs sub)"

text \<open>\<open>strings.Trim(s, cutset)\<close>: every leading and trailing byte of the cutset is removed.\<close>

definition Trim :: "string \<Rightarrow> string \<Rightarrow> string" where
  "Trim s cutset =
     rev (dropWhile (\<lambda>c. c \<in> set cutset) (rev (dropWhile (\<lambda>c. c \<in> set cutset) s)))"

text \<open>
  \<open>strings.Split(s, sep)\<close> for a separator of one byte (the source splits paths on
  \<open>/\<close>): one more piece than there are separators, so the empty string gives one empty
  piece.
\<close>

fun Split :: "string \<Rightarrow> char \<Rightarrow> string list" where
  "Split [] sep = [[]]"
| "Split (c # cs) sep =
     (if c = sep then [] # Split cs sep
      else (case Split cs sep of
              w # ws \<Rightarrow> (c # w) # ws
            | [] \<Rightarrow> [[c]]))"

text \<open>
  \<open>strings.SplitN(s, sep, 2)\<close> for a separator of one byte: the text before the first
  separator and the text after it, or the whole string when there is no separator.
\<close>

definition SplitN2 :: "string \<Rightarrow> char \<Rightarrow> string list" where
  "SplitN2 s sep =
     (if sep \<in> set s
      then [takeWhile (\<lambda>c. c \<noteq> sep) s, tl (dropWhile (\<lambda>c. c \<noteq> sep) s)]
      else [s])"

section \<open>Route keys and pattern matching (package config)\<close>

definition FormatRoute :: "string \<Rightarrow> string \<Rightarrow> string" where
  "FormatRoute method path = ToUpper method @ '':'' @ path"

definition ParseRoute :: "string \<Rightarrow> string \<times> string" where
  "ParseRoute route =
     (let parts = SplitN2 route (CHR '':'')
      in if length parts = 2 then (parts ! 0, parts ! 1) else (''*'', route))"

text \<open>
  The first loop of \<open>matchSegmentWildcards\<close>: is there a \<open>*\<close> segment at an index other
  than the last one?
\<close>

definition hasOtherWildcards :: "string list \<Rightarrow> bool" where
  "hasOtherWildcards segments =
     list_ex (\<lambda>(i, seg). seg = ''*'' \<and> i \<noteq> length segments - 1)
       (zip [0..<length segments] segments)"

text \<open>The "empty path case": a single empty segment stands for no segment at all.\<close>

definition pathSegments :: "string \<Rightarrow> string list" where
  "pathSegments p =
     (let segs = Split (Trim p ''/'') (CHR ''/'')
      in if length segs = 1 \<and> segs ! 0 = [] then [] else segs)"

text \<open>
  The last loop of \<open>matchSegmentWildcards\<close>, over the pattern's segments; it runs only on
  lists of the same length, so the request list never ends first.
\<close>

fun compareSegments :: "string list \<Rightarrow> string list \<Rightarrow> bool" where
  "compareSegments [] requestSegments = True"
| "compareSegments (configSeg # cs) [] = False"
| "compareSegments (configSeg # cs) (requestSeg # rs) =
     (if configSeg = ''*'' then compareSegments cs rs
      else if configSeg \<noteq> requestSeg then False
      else compareSegments cs rs)"

definition matchSegmentWildcards :: "string \<Rightarrow> string \<Rightarrow> bool" where
  "matchSegmentWildcards requestPath configPath =
     (if HasSuffix configPath ''/*''
         \<and> \<not> hasOtherWildcards (Split (Trim configPath ''/'') (CHR ''/''))
      then HasPrefix requestPath (TrimSuffix configPath ''/*'')
      else
        (let requestSegments = pathSegments requestPath;
             configSegments = pathSegments configPath
         in if length requestSegments \<noteq> length configSegments then False
            else compareSegments configSegments requestSegments))"

text \<open>
  \<open>matchPath\<close> falls back on \<open>path.Match\<close> of Go's standard library for a pattern
  without \<open>*\<close>; that function is the parameter \<open>pm\<close> (pattern first, as in Go).
  On a pattern without metacharacters (star, question mark, bracket, backslash) it is
  \<open>pathMatchLiteral\<close>: such a pattern matches itself only.
\<close>

definition pathMatchLiteral :: "string \<Rightarrow> string \<Rightarrow> bool" where
  "pathMatchLiteral pattern name = (pattern = name)"

definition matchPath :: "(string \<Rightarrow> string \<Rightarrow> bool) \<Rightarrow> string \<Rightarrow> string \<Rightarrow> bool" where
  "matchPath pm requestPath configPath =
     (if requestPath = configPath then True
      else if Contains configPath ''*'' then matchSegmentWildcards requestPath configPath
      else pm configPath requestPath)"

definition MatchRoute :: "(string \<Rightarrow> string \<Rightarrow> bool) \<Rightarrow> string \<Rightarrow> string \<Rightarrow> bool" where
  "MatchRoute pm requestRoute configRoute =
     (let (requestMethod, requestPath) = ParseRoute requestRoute;
          (configMethod, configPath) = ParseRoute configRoute
      in if configMethod \<noteq> ''*'' \<and> configMethod \<noteq> requestMethod then False
         else matchPath pm requestPath configPath)"

section \<open>Configuration and per-route policies (package config)\<close>

text \<open>
  The three configuration structs.  The fields of \<open>RouteConfig\<close> and \<open>GlobalConfig\<close>
  carry a suffix, since a record field is a constant of the theory.  A Go \<open>uint64\<close> is a
  \<^typ>\<open>64 word\<close>.  A Go map is an association list with distinct keys, in the order in
  which a \<open>range\<close> loop happens to enumerate it (Go leaves that order unspecified);
  \<open>m[k]\<close> is \<^const>\<open>map_of\<close> and \<open>m[k] = v\<close> is \<^const>\<open>AList.update\<close>.
\<close>

record RouteConfig =
  CompareHeaders_rc :: string
  CompareBody_rc :: string
  SkipHeaders_rc :: "string list"
  StoreReqBody_rc :: string
  StoreRespBodies_rc :: string
  SkipJSONPaths_rc :: "string list"
  TestProbability_rc :: "64 word"

record GlobalConfig =
  CompareHeaders_g :: bool
  CompareBody_g :: bool
  SkipHeaders_g :: "string list"
  StoreReqBody_g :: bool
  StoreRespBodies_g :: bool
  SkipJSONPaths_g :: "string list"
  TestProbability_g :: "64 word"

record ComputedRouteConfig =
  CompareHeaders :: bool
  CompareBody :: bool
  SkipHeaders :: "string list"
  StoreReqBody :: bool
  StoreRespBodies :: bool
  SkipJSONPaths :: "string list"
  TestProbability :: "64 word"

record ComputedRouteConfigs =
  Routes :: "(string \<times> ComputedRouteConfig) list"
  Global :: ComputedRouteConfig
  SkipRoutes :: "(string \<times> bool) list"

text \<open>
  The part of \<open>HTTPConfig\<close> that \<open>PrecomputeRouteConfigs\<close> reads.  \<open>RouteConfigs_cfg\<close> is
  a Go map too; the order of the list is the order of the entries in the configuration
  file, which the map does not keep.
\<close>

record HTTPConfig =
  GlobalConfig_cfg :: GlobalConfig
  RouteConfigs_cfg :: "(string \<times> RouteConfig) list"
  SkipRoutes_cfg :: "string list"

text \<open>The global policy, as \<open>PrecomputeRouteConfigs\<close> copies it.\<close>

definition computeGlobal :: "GlobalConfig \<Rightarrow> ComputedRouteConfig" where
  "computeGlobal g =
     \<lparr> CompareHeaders = CompareHeaders_g g,
       CompareBody = CompareBody_g g,
       SkipHeaders = [] @ SkipHeaders_g g,
       StoreReqBody = StoreReqBody_g g,
       StoreRespBodies = StoreRespBodies_g g,
       SkipJSONPaths = [] @ SkipJSONPaths_g g,
       TestProbability = TestProbability_g g \<rparr>"

text \<open>
  The body of the loop over \<open>c.RouteConfigs\<close>: start from a copy of the global policy,
  then apply the overrides one after the other.
\<close>

definition mergeRouteConfig :: "ComputedRouteConfig \<Rightarrow> RouteConfig \<Rightarrow> ComputedRouteConfig" where
  "mergeRouteConfig global routeConfig =
     (let m0 = \<lparr> CompareHeaders = CompareHeaders global,
                 CompareBody = CompareBody global,
                 SkipHeaders = [] @ SkipHeaders global,
                 StoreReqBody = StoreReqBody global,
                 StoreRespBodies = StoreRespBodies global,
                 SkipJSONPaths = [] @ SkipJSONPaths global,
                 TestProbability = TestProbability global \<rparr>;
          m1 = (if CompareHeaders_rc routeConfig = ''enable'' then m0\<lparr>CompareHeaders := True\<rparr>
                else if CompareHeaders_rc routeConfig = ''disable''
                  then m0\<lparr>CompareHeaders := False\<rparr>
                else m0);
          m2 = (if CompareBody_rc routeConfig = ''enable'' then m1\<lparr>CompareBody := True\<rparr>
                else if CompareBody_rc routeConfig = ''disable'' then m1\<lparr>CompareBody := False\<rparr>
                else m1);
          m3 = (if StoreReqBody_rc routeConfig = ''enable'' then m2\<lparr>StoreReqBody := True\<rparr>
                else if StoreReqBody_rc routeConfig = ''disable''
                  then m2\<lparr>StoreReqBody := False\<rparr>
                else m2);
          m4 = (if StoreRespBodies_rc routeConfig = ''enable''
                  then m3\<lparr>StoreRespBodies := True\<rparr>
                else if StoreRespBodies_rc routeConfig = ''disable''
                  then m3\<lparr>StoreRespBodies := False\<rparr>
                else m3);
          m5 = (if length (SkipHeaders_rc routeConfig) > 0
                then m4\<lparr>SkipHeaders := SkipHeaders m4 @ SkipHeaders_rc routeConfig\<rparr>
                else m4);
          m6 = (if length (SkipJSONPaths_rc routeConfig) > 0
                then m5\<lparr>SkipJSONPaths := SkipJSONPaths m5 @ SkipJSONPaths_rc routeConfig\<rparr>
                else m5)
      in if TestProbability_rc routeConfig > 0
         then m6\<lparr>TestProbability := TestProbability_rc routeConfig\<rparr>
         else m6)"

definition PrecomputeRouteConfigs :: "HTTPConfig \<Rightarrow> ComputedRouteConfigs" where
  "PrecomputeRouteConfigs c =
     (let global = computeGlobal (GlobalConfig_cfg c)
      in \<lparr> Routes =
             fold (\<lambda>(routePattern, routeConfig).
                     AList.update routePattern (mergeRouteConfig global routeConfig))
               (RouteConfigs_cfg c) [],
           Global = global,
           SkipRoutes = fold (\<lambda>skipRoute. AList.update skipRoute True) (SkipRoutes_cfg c) [] \<rparr>)"

text \<open>
  The two lookups of the request path.  Both try the literal route key in the map first
  and only then range over the map, calling \<open>MatchRoute\<close> on each key.
\<close>

definition GetRouteConfig ::
  "(string \<Rightarrow> string \<Rightarrow> bool) \<Rightarrow> ComputedRouteConfigs \<Rightarrow> string \<Rightarrow> ComputedRouteConfig" where
  "GetRouteConfig pm cc route =
     (case map_of (Routes cc) route of
        Some config \<Rightarrow> config
      | None \<Rightarrow>
          (case find (\<lambda>(configRoute, config). MatchRoute pm route configRoute) (Routes cc) of
             Some (configRoute, config) \<Rightarrow> config
           | None \<Rightarrow> Global cc))"

definition IsRouteSkipped ::
  "(string \<Rightarrow> string \<Rightarrow> bool) \<Rightarrow> ComputedRouteConfigs \<Rightarrow> string \<Rightarrow> bool" where
  "IsRouteSkipped pm cc route =
     (if (case map_of (SkipRoutes cc) route of Some b \<Rightarrow> b | None \<Rightarrow> False) then True
      else list_ex (\<lambda>(skipRoute, b). MatchRoute pm route skipRoute) (SkipRoutes cc))"

text \<open>The configuration of the repository's test \<open>TestHTTPConfig_PrecomputeRouteConfigs\<close>.\<close>

definition testRouteUsers :: RouteConfig where
  "testRouteUsers =
     \<lparr> CompareHeaders_rc = ''disable'', CompareBody_rc = [],
       SkipHeaders_rc = [''Authorization''], StoreReqBody_rc = ''enable'',
       StoreRespBodies_rc = ''enable'', SkipJSONPaths_rc = [''password''],
       TestProbability_rc = 75 \<rparr>"

definition testRouteOrders :: RouteConfig where
  "testRouteOrders =
     \<lparr> CompareHeaders_rc = [], CompareBody_rc = [],
       SkipHeaders_rc = [''Cookie''], StoreReqBody_rc = [],
       StoreRespBodies_rc = [], SkipJSONPaths_rc = [''internal_id''],
       TestProbability_rc = 50 \<rparr>"

definition testConfig :: HTTPConfig where
  "testConfig =
     \<lparr> GlobalConfig_cfg =
         \<lparr> CompareHeaders_g = True, CompareBody_g = False,
           SkipHeaders_g = [''Date'', ''Server''], StoreReqBody_g = False,
           StoreRespBodies_g = True, SkipJSONPaths_g = [''timestamp''],
           TestProbability_g = 100 \<rparr>,
       RouteConfigs_cfg =
         [(''POST:/api/users'', testRouteUsers), (''GET:/api/orders/*'', testRouteOrders)],
       SkipRoutes_cfg = [''GET:/health'', ''*:/metrics''] \<rparr>"

section \<open>Requests, responses and log records\<close>

text \<open>
  \<open>http.Header\<close> is a Go map from a header name to the list of its values.  Of a
  request and of an upstream response the model keeps what the proxy reads; bodies are
  handed over by the I/O records further down.
\<close>

type_synonym Header = "(string \<times> string list) list"

record Request =
  Method :: string
  URLPath :: string
  URLString :: string
  Header_req :: Header

record Response =
  StatusCode :: int
  Header_res :: Header

text \<open>\<open>storage.Log\<close>; a nil pointer is \<open>None\<close>, a nil slice the empty list.\<close>

record Log =
  URL :: string
  Method_log :: string
  Route :: string
  Headers :: Header
  RequestBody :: "string option"
  MainUpstreamStatusCode :: int
  TestUpstreamStatusCode :: int
  MainUpstreamResponsePayload :: "string option"
  TestUpstreamResponsePayload :: "string option"
  ComparisonType :: string
  DifferentHeaders :: "string list"

text \<open>
  The Prometheus counters with their label values, in the order of the source.  The
  duration histogram and the lines written to the application log are left out.
\<close>

datatype metric =
    RouteSkipCounter string string string
  | HTTPReqCounter string string string string string
  | ComparisonResults string string string

text \<open>What a comparison job does to the outside: a counter incremented, a record stored.\<close>

datatype effect = Metric metric | Store Log

text \<open>How a handler or a job ends: it returns, it waits on a channel send, or it panics.\<close>

datatype exit = Returned | BlockedOnSend | Panicked string

text \<open>\<open>strconv.Itoa\<close>.\<close>

fun natDigits :: "nat \<Rightarrow> string" where
  "natDigits n =
     (if n < 10 then [''0123456789'' ! n]
      else natDigits (n div 10) @ [''0123456789'' ! (n mod 10)])"

declare natDigits.simps [simp del]

definition Itoa :: "int \<Rightarrow> string" where
  "Itoa i = (if i < 0 then ''-'' @ natDigits (nat (- i)) else natDigits (nat i))"

text \<open>
  \<open>h.Get(key)\<close>, called with the canonical form of the key: the first value stored under
  it, or the empty string.
\<close>

definition HeaderGet :: "Header \<Rightarrow> string \<Rightarrow> string" where
  "HeaderGet h canonicalKey =
     (case map_of h canonicalKey of
        Some (v # vs) \<Rightarrow> v
      | Some [] \<Rightarrow> []
      | None \<Rightarrow> [])"

section \<open>The comparison job (package main)\<close>

text \<open>
  The inner loop of \<open>compareHeaders\<close>, which runs on two value lists of the same length:
  is there an index at which the values differ?
\<close>

definition valuesDiffer :: "string list \<Rightarrow> string list \<Rightarrow> bool" where
  "valuesDiffer mainValues testValues =
     list_ex (\<lambda>(mainValue, testValue). mainValue \<noteq> testValue) (zip mainValues testValues)"

definition buildSkipHeadersMap :: "string list \<Rightarrow> (string \<times> bool) list" where
  "buildSkipHeadersMap skipHeaders =
     fold (\<lambda>header. AList.update (ToLower header) True) skipHeaders []"

text \<open>\<open>skipHeadersMap[keyLower]\<close>: a missing key reads as false.\<close>

definition skipLookup :: "(string \<times> bool) list \<Rightarrow> string \<Rightarrow> bool" where
  "skipLookup skipHeadersMap keyLower =
     (case map_of skipHeadersMap keyLower of Some b \<Rightarrow> b | None \<Rightarrow> False)"

definition compareHeaders :: "ComputedRouteConfig \<Rightarrow> Header \<Rightarrow> Header \<Rightarrow> string list" where
  "compareHeaders rc mainHeaders testHeaders =
     (let skipHeadersMap = buildSkipHeadersMap (SkipHeaders rc);
          fromMain =
            fold (\<lambda>(key, mainValues) differentHeaders.
                    if skipLookup skipHeadersMap (ToLower key) then differentHeaders
                    else (case map_of testHeaders key of
                            None \<Rightarrow> differentHeaders @ [key]
                          | Some testValues \<Rightarrow>
                              if length mainValues \<noteq> length testValues
                              then differentHeaders @ [key]
                              else if valuesDiffer mainValues testValues
                              then differentHeaders @ [key]
                              else differentHeaders))
              mainHeaders []
      in fold (\<lambda>(key, testValues) differentHeaders.
                 if skipLookup skipHeadersMap (ToLower key) then differentHeaders
                 else if map_of mainHeaders key = None then differentHeaders @ [key]
                 else differentHeaders)
           testHeaders fromMain)"

text \<open>
  The body comparators.  \<open>json.Unmarshal\<close> into an \<open>interface{}\<close> is the parameter
  \<open>unmarshal\<close>, from bytes to an error or a parse tree.  \<open>reflect.DeepEqual\<close> on two
  parse trees is equality: a parse tree holds maps, slices, strings, booleans, nil and
  finite numbers, on which \<open>DeepEqual\<close> is structural.
\<close>

definition JSONBytesEqual :: "(string \<Rightarrow> string + 'j) \<Rightarrow> string \<Rightarrow> string \<Rightarrow> string + bool" where
  "JSONBytesEqual unmarshal a b =
     (case unmarshal a of
        Inl err \<Rightarrow> Inl err
      | Inr json1 \<Rightarrow>
          (case unmarshal b of
             Inl err \<Rightarrow> Inl err
           | Inr json2 \<Rightarrow> Inr (json2 = json1)))"

definition dummyBytesEqual :: "string \<Rightarrow> string \<Rightarrow> string + bool" where
  "dummyBytesEqual a b = Inr (a = b)"

text \<open>
  The \<open>switch\<close> on the lower-cased content type of the main response: the flag
  \<open>responseSkipPath\<close> and the comparator.
\<close>

definition chooseComparator ::
  "(string \<Rightarrow> string + 'j) \<Rightarrow> string \<Rightarrow> bool \<times> (string \<Rightarrow> string \<Rightarrow> string + bool)" where
  "chooseComparator unmarshal mainResContentType =
     (if ToLower mainResContentType = ''application/json''
         \<or> ToLower mainResContentType = ''application/ld+json''
      then (True, JSONBytesEqual unmarshal)
      else (False, dummyBytesEqual))"

text \<open>
  The loop over \<open>SkipJSONPaths\<close>.  \<open>sjson.Set\<close> (an external library) is the parameter
  \<open>sjsonSet\<close>: document, path and value to an error or the new document.  An error
  makes the job panic.
\<close>

fun skipPaths ::
  "(string \<Rightarrow> string \<Rightarrow> string \<Rightarrow> string + string) \<Rightarrow> string list \<Rightarrow> string \<Rightarrow> string
     \<Rightarrow> string + (string \<times> string)" where
  "skipPaths sjsonSet [] srcBodyStr testBodyStr = Inr (srcBodyStr, testBodyStr)"
| "skipPaths sjsonSet (path # paths) srcBodyStr testBodyStr =
     (case sjsonSet srcBodyStr path ''useless'' of
        Inl err \<Rightarrow> Inl err
      | Inr srcBodyStr' \<Rightarrow>
          (case sjsonSet testBodyStr path ''useless'' of
             Inl err \<Rightarrow> Inl err
           | Inr testBodyStr' \<Rightarrow> skipPaths sjsonSet paths srcBodyStr' testBodyStr'))"

text \<open>
  \<open>upstreamTestJob\<close>: the request, its route and policy, the buffered request body, the
  main response and the bytes behind \<open>mainResBodyReader\<close>.
\<close>

record upstreamTestJob =
  req :: Request
  route :: string
  routeConfig :: ComputedRouteConfig
  reqBodyBuffer :: string
  mainRes :: Response
  mainResBody :: string

text \<open>
  What the outside answers to a job: the error of \<open>http.NewRequestWithContext\<close>, the
  result of \<open>testServiceClient.Do\<close>, and the result of reading the test response's body.
  Seeking and reading a \<open>bytes.Reader\<close> cannot fail.
\<close>

record jobIO =
  newTestRequest :: "string option"
  testDo :: "string + Response"
  testBodyRead :: "string + string"

text \<open>
  The three records a job can store.  On a header difference the job reads both bodies
  a second time; both readers are at their end by then, so the payloads are empty.
\<close>

definition statusDiffLog :: "upstreamTestJob \<Rightarrow> Response \<Rightarrow> Log" where
  "statusDiffLog j testRes =
     (let log = \<lparr> URL = URLString (req j), Method_log = Method (req j), Route = route j,
                  Headers = Header_req (req j), RequestBody = None,
                  MainUpstreamStatusCode = StatusCode (mainRes j),
                  TestUpstreamStatusCode = StatusCode testRes,
                  MainUpstreamResponsePayload = None, TestUpstreamResponsePayload = None,
                  ComparisonType = ''status_diff'', DifferentHeaders = [] \<rparr>
      in if StoreReqBody (routeConfig j) then log\<lparr>RequestBody := Some (reqBodyBuffer j)\<rparr>
         else log)"

definition headerDiffLog :: "upstreamTestJob \<Rightarrow> Response \<Rightarrow> string list \<Rightarrow> Log" where
  "headerDiffLog j testRes differentHeaders =
     (let log = \<lparr> URL = URLString (req j), Method_log = Method (req j), Route = route j,
                  Headers = Header_req (req j), RequestBody = None,
                  MainUpstreamStatusCode = StatusCode (mainRes j),
                  TestUpstreamStatusCode = StatusCode testRes,
                  MainUpstreamResponsePayload = None, TestUpstreamResponsePayload = None,
                  ComparisonType = ''header_diff'', DifferentHeaders = differentHeaders \<rparr>;
          log1 = (if StoreReqBody (routeConfig j)
                  then log\<lparr>RequestBody := Some (reqBodyBuffer j)\<rparr> else log)
      in if StoreRespBodies (routeConfig j)
         then log1\<lparr>MainUpstreamResponsePayload := Some [],
                   TestUpstreamResponsePayload := Some []\<rparr>
         else log1)"

definition bodyDiffLog :: "upstreamTestJob \<Rightarrow> Response \<Rightarrow> string \<Rightarrow> string \<Rightarrow> Log" where
  "bodyDiffLog j testRes mainResBodyStr testResBodyStr =
     (let l = \<lparr> URL = URLString (req j), Method_log = Method (req j), Route = route j,
                Headers = Header_req (req j), RequestBody = None,
                MainUpstreamStatusCode = StatusCode (mainRes j),
                TestUpstreamStatusCode = StatusCode testRes,
                MainUpstreamResponsePayload = None, TestUpstreamResponsePayload = None,
                ComparisonType = ''body_diff'', DifferentHeaders = [] \<rparr>;
          l1 = (if StoreReqBody (routeConfig j)
                then l\<lparr>RequestBody := Some (reqBodyBuffer j)\<rparr> else l)
      in if StoreRespBodies (routeConfig j)
         then l1\<lparr>MainUpstreamResponsePayload := Some mainResBodyStr,
                 TestUpstreamResponsePayload := Some testResBodyStr\<rparr>
         else l1)"

text \<open>The end of \<open>Do\<close>: the verdict on the bodies becomes a counter and, maybe, a record.\<close>

definition reportBody ::
  "upstreamTestJob \<Rightarrow> Response \<Rightarrow> bool \<Rightarrow> string \<Rightarrow> string \<Rightarrow> effect list" where
  "reportBody j testRes equalBody mainResBodyStr testResBodyStr =
     (if equalBody
      then [Metric (ComparisonResults (route j) (Method (req j)) ''identical'')]
      else [Metric (ComparisonResults (route j) (Method (req j)) ''body_diff''),
            Store (bodyDiffLog j testRes mainResBodyStr testResBodyStr)])"

text \<open>\<open>Do\<close> from the choice of the comparator on.\<close>

definition compareBodies ::
  "(string \<Rightarrow> string + 'j) \<Rightarrow> (string \<Rightarrow> string \<Rightarrow> string \<Rightarrow> string + string)
     \<Rightarrow> upstreamTestJob \<Rightarrow> Response \<Rightarrow> string \<Rightarrow> effect list \<times> exit" where
  "compareBodies unmarshal sjsonSet j testRes testResBody =
     (let mainResContentType = HeaderGet (Header_res (mainRes j)) ''Content-Type'';
          (responseSkipPath, comparator) = chooseComparator unmarshal mainResContentType
      in case comparator (mainResBody j) testResBody of
           Inl err \<Rightarrow> ([], Returned)
         | Inr equalBody \<Rightarrow>
             if \<not> equalBody \<and> responseSkipPath
                \<and> StatusCode testRes = StatusCode (mainRes j)
             then (case skipPaths sjsonSet (SkipJSONPaths (routeConfig j))
                          (mainResBody j) testResBody of
                     Inl err \<Rightarrow> ([], Panicked err)
                   | Inr (srcBodyStr, testBodyStr) \<Rightarrow>
                       (case JSONBytesEqual unmarshal srcBodyStr testBodyStr of
                          Inl err \<Rightarrow> ([], Returned)
                        | Inr equalBody' \<Rightarrow>
                            (reportBody j testRes equalBody' srcBodyStr testBodyStr,
                             Returned)))
             else (reportBody j testRes equalBody (mainResBody j) testResBody, Returned))"

text \<open>\<open>Do\<close> from the comparison of the status codes on.\<close>

definition compareResponses ::
  "(string \<Rightarrow> string + 'j) \<Rightarrow> (string \<Rightarrow> string \<Rightarrow> string \<Rightarrow> string + string)
     \<Rightarrow> upstreamTestJob \<Rightarrow> Response \<Rightarrow> string \<Rightarrow> effect list \<times> exit" where
  "compareResponses unmarshal sjsonSet j testRes testResBody =
     (if StatusCode testRes \<noteq> StatusCode (mainRes j)
      then ([Metric (ComparisonResults (route j) (Method (req j)) ''status_diff''),
             Store (statusDiffLog j testRes)], Returned)
      else if CompareHeaders (routeConfig j)
              \<and> length (compareHeaders (routeConfig j) (Header_res (mainRes j))
                           (Header_res testRes)) > 0
      then ([Metric (ComparisonResults (route j) (Method (req j)) ''header_diff''),
             Store (headerDiffLog j testRes
                      (compareHeaders (routeConfig j) (Header_res (mainRes j))
                         (Header_res testRes)))], Returned)
      else compareBodies unmarshal sjsonSet j testRes testResBody)"

definition Do ::
  "(string \<Rightarrow> string + 'j) \<Rightarrow> (string \<Rightarrow> string \<Rightarrow> string \<Rightarrow> string + string)
     \<Rightarrow> upstreamTestJob \<Rightarrow> jobIO \<Rightarrow> effect list \<times> exit" where
  "Do unmarshal sjsonSet j io =
     (case newTestRequest io of
        Some err \<Rightarrow> ([], Returned)
      | None \<Rightarrow>
          (case testDo io of
             Inl err \<Rightarrow>
               ([Metric (HTTPReqCounter ''client_error'' (Method (req j)) ''test_upstream''
                           (route j) ''error'')], Returned)
           | Inr testRes \<Rightarrow>
               (let counted =
                      [Metric (HTTPReqCounter (Itoa (StatusCode testRes)) (Method (req j))
                                 ''test_upstream'' (route j) ''success'')]
                in case testBodyRead io of
                     Inl err \<Rightarrow> (counted, Returned)
                   | Inr testResBody \<Rightarrow>
                       (let (effects, ex) =
                              compareResponses unmarshal sjsonSet j testRes testResBody
                        in (counted @ effects, ex)))))"

text \<open>The records among the effects of a job, in the order in which they were stored.\<close>

fun storedLogs :: "effect list \<Rightarrow> Log list" where
  "storedLogs [] = []"
| "storedLogs (Store l # es) = l # storedLogs es"
| "storedLogs (Metric m # es) = storedLogs es"

section \<open>The proxy front end (package main)\<close>

text \<open>
  A Go channel with a buffer, as \<open>chansend\<close> of the Go runtime treats it: a sender hands
  its value to a receiver that is already waiting; otherwise the value goes into the
  buffer if there is room; otherwise the sender waits (\<open>None\<close>).  \<open>handed\<close> collects the
  values given directly to receivers.
\<close>

record 'a chan =
  buf :: "'a list"
  cap :: nat
  recvq :: nat
  handed :: "'a list"

definition chanSend :: "'a chan \<Rightarrow> 'a \<Rightarrow> 'a chan option" where
  "chanSend c x =
     (if recvq c > 0 then Some (c\<lparr>recvq := recvq c - 1, handed := handed c @ [x]\<rparr>)
      else if length (buf c) < cap c then Some (c\<lparr>buf := buf c @ [x]\<rparr>)
      else None)"

text \<open>\<open>server\<close>: the job channel, made with capacity \<open>c.Worker.QueueSize\<close>, and the counter.\<close>

record server =
  job :: "upstreamTestJob chan"
  reqCounter :: "64 word"

text \<open>
  \<open>http.ResponseWriter\<close>: the header map, the status code once it is written, and the body
  written so far.  \<open>Write\<close> on a writer without a status writes status 200 first, and a
  handler that returns without writing anything leaves the server to answer 200 as well.
\<close>

record ResponseWriter =
  wHeader :: Header
  wStatus :: "int option"
  wBody :: string

definition HeaderSet :: "Header \<Rightarrow> string \<Rightarrow> string \<Rightarrow> Header" where
  "HeaderSet h key v = AList.update key [v] h"

definition WriteHeader :: "ResponseWriter \<Rightarrow> int \<Rightarrow> ResponseWriter" where
  "WriteHeader w code = (if wStatus w = None then w\<lparr>wStatus := Some code\<rparr> else w)"

definition Write :: "ResponseWriter \<Rightarrow> string \<Rightarrow> ResponseWriter" where
  "Write w bytes = (let w' = WriteHeader w 200 in w'\<lparr>wBody := wBody w' @ bytes\<rparr>)"

definition clientStatus :: "ResponseWriter \<Rightarrow> int" where
  "clientStatus w = (case wStatus w of Some code \<Rightarrow> code | None \<Rightarrow> 200)"

text \<open>\<open>http.Error\<close>: a plain-text reply with the given status code.\<close>

definition httpError :: "ResponseWriter \<Rightarrow> string \<Rightarrow> int \<Rightarrow> ResponseWriter" where
  "httpError w msg code =
     Write
       (WriteHeader
          (w\<lparr>wHeader :=
               HeaderSet
                 (HeaderSet (AList.delete ''Content-Length'' (wHeader w))
                    ''Content-Type'' ''text/plain; charset=utf-8'')
                 ''X-Content-Type-Options'' ''nosniff''\<rparr>)
          code)
       (msg @ [CHR 0x0A])"

text \<open>\<open>strings.Join\<close>.\<close>

fun Join :: "string list \<Rightarrow> string \<Rightarrow> string" where
  "Join [] sep = []"
| "Join [x] sep = x"
| "Join (x # y # ys) sep = x @ sep @ Join (y # ys) sep"

text \<open>The loop that copies the headers of the main response to the client.\<close>

definition copyHeaders :: "Header \<Rightarrow> ResponseWriter \<Rightarrow> ResponseWriter" where
  "copyHeaders mainHeader w =
     fold (\<lambda>(headerKey, headerValue) w'.
             if length headerValue = 1
             then w'\<lparr>wHeader := HeaderSet (wHeader w') headerKey (headerValue ! 0)\<rparr>
             else w'\<lparr>wHeader :=
                      HeaderSet (wHeader w') headerKey (''['' @ Join headerValue '','' @ '']'')\<rparr>)
       mainHeader w"

text \<open>The sampler: the test of \<open>handle\<close> on the counter, in \<open>uint64\<close> arithmetic.\<close>

definition inBucket :: "64 word \<Rightarrow> 64 word \<Rightarrow> bool" where
  "inBucket n p = (n mod 100 < p - 1)"

text \<open>
  What the outside answers to the handler: the bytes copied from the request body and
  the error of that copy, the error of \<open>http.NewRequestWithContext\<close>, the result of
  \<open>mainServiceClient.Do\<close>, the bytes copied from the body of the main response and the
  error of that copy, and the error of the copy to the client.
\<close>

record handleIO =
  reqBodyCopy :: "string \<times> string option"
  newMainRequest :: "string option"
  mainDo :: "string + Response"
  mainBodyCopy :: "string \<times> string option"
  writerCopy :: "string option"

record handleResult =
  hWriter :: ResponseWriter
  hServer :: server
  hMetrics :: "metric list"
  hExit :: exit

text \<open>The branch of \<open>handle\<close> for a skipped route.\<close>

definition handleSkipped ::
  "server \<Rightarrow> ResponseWriter \<Rightarrow> Request \<Rightarrow> handleIO \<Rightarrow> string \<Rightarrow> handleResult" where
  "handleSkipped s writer r io rt =
     (let counted = [RouteSkipCounter rt (Method r) ''config'']
      in case newMainRequest io of
           Some err \<Rightarrow>
             \<lparr> hWriter = httpError writer ''Failed to create upstream request'' 500,
               hServer = s, hMetrics = counted, hExit = Returned \<rparr>
         | None \<Rightarrow>
             (case mainDo io of
                Inl err \<Rightarrow>
                  \<lparr> hWriter = httpError writer ''Failed to reach upstream'' 502,
                    hServer = s,
                    hMetrics = counted @
                      [HTTPReqCounter ''client_error'' (Method r) ''main_upstream'' rt
                         ''skipped''],
                    hExit = Returned \<rparr>
              | Inr mres \<Rightarrow>
                  \<lparr> hWriter =
                      Write (WriteHeader (copyHeaders (Header_res mres) writer)
                               (StatusCode mres))
                        (fst (mainBodyCopy io)),
                    hServer = s,
                    hMetrics = counted @
                      [HTTPReqCounter (Itoa (StatusCode mres)) (Method r) ''main_upstream''
                         rt ''skipped''],
                    hExit = Returned \<rparr>))"

text \<open>
  The end of \<open>handle\<close>, once the client has its reply: look the policy up, count the
  request, and send a job on the channel if the request is in the bucket.
\<close>

definition sampleAndEnqueue ::
  "(string \<Rightarrow> string \<Rightarrow> bool) \<Rightarrow> ComputedRouteConfigs \<Rightarrow> server \<Rightarrow> ResponseWriter \<Rightarrow> Request
     \<Rightarrow> string \<Rightarrow> string \<Rightarrow> Response \<Rightarrow> string \<Rightarrow> metric list \<Rightarrow> handleResult" where
  "sampleAndEnqueue pm cc s writer r rt reqBody mres mainBody counted =
     (let rc = GetRouteConfig pm cc rt;
          s1 = s\<lparr>reqCounter := reqCounter s + 1\<rparr>
      in if inBucket (reqCounter s1) (TestProbability rc)
         then (case chanSend (job s1)
                       \<lparr> req = r, route = rt, routeConfig = rc, reqBodyBuffer = reqBody,
                         mainRes = mres, mainResBody = mainBody \<rparr> of
                 None \<Rightarrow>
                   \<lparr> hWriter = writer, hServer = s1, hMetrics = counted,
                     hExit = BlockedOnSend \<rparr>
               | Some ch \<Rightarrow>
                   \<lparr> hWriter = writer, hServer = s1\<lparr>job := ch\<rparr>, hMetrics = counted,
                     hExit = Returned \<rparr>)
         else \<lparr> hWriter = writer, hServer = s1,
                hMetrics = counted @
                  [HTTPReqCounter (Itoa (StatusCode mres)) (Method r) ''test_upstream''
                     rt ''skipped_probability''],
                hExit = Returned \<rparr>)"

definition handle ::
  "(string \<Rightarrow> string \<Rightarrow> bool) \<Rightarrow> ComputedRouteConfigs \<Rightarrow> server \<Rightarrow> ResponseWriter \<Rightarrow> Request
     \<Rightarrow> handleIO \<Rightarrow> handleResult" where
  "handle pm cc s writer r io =
     (let rt = FormatRoute (Method r) (URLPath r)
      in if IsRouteSkipped pm cc rt then handleSkipped s writer r io rt
         else
           (case snd (reqBodyCopy io) of
              Some err \<Rightarrow> \<lparr> hWriter = writer, hServer = s, hMetrics = [], hExit = Returned \<rparr>
            | None \<Rightarrow>
                (case newMainRequest io of
                   Some err \<Rightarrow>
                     \<lparr> hWriter = writer, hServer = s, hMetrics = [], hExit = Returned \<rparr>
                 | None \<Rightarrow>
                     (case mainDo io of
                        Inl err \<Rightarrow>
                          \<lparr> hWriter = writer, hServer = s,
                            hMetrics =
                              [HTTPReqCounter ''client_error'' (Method r) ''main_upstream''
                                 rt ''error''],
                            hExit = Returned \<rparr>
                      | Inr mres \<Rightarrow>
                          (let counted =
                                 [HTTPReqCounter (Itoa (StatusCode mres)) (Method r)
                                    ''main_upstream'' rt ''success''];
                               w1 = WriteHeader (copyHeaders (Header_res mres) writer)
                                      (StatusCode mres)
                           in case snd (mainBodyCopy io) of
                                Some err \<Rightarrow>
                                  \<lparr> hWriter = w1, hServer = s, hMetrics = counted,
                                    hExit = Returned \<rparr>
                              | None \<Rightarrow>
                                  (case writerCopy io of
                                     Some err \<Rightarrow>
                                       \<lparr> hWriter = w1, hServer = s, hMetrics = counted,
                                         hExit = Returned \<rparr>
                                   | None \<Rightarrow>
                                       sampleAndEnqueue pm cc s
                                         (Write w1 (fst (mainBodyCopy io))) r rt
                                         (fst (reqBodyCopy io)) mres
                                         (fst (mainBodyCopy io)) counted))))))"

section \<open>JSON documents and path masking\<close>

text \<open>
  Modelled from the spec: \<open>json.Unmarshal\<close> and \<open>sjson.Set\<close> are libraries outside the
  repository.  The specification says of them: two bodies are equal iff their parse
  trees are structurally equal, object key order irrelevant, array order significant,
  numeric literals normalised by the parse; and a listed dotted path is set to the
  sentinel \<open>"useless"\<close>, created if absent.  A parse tree is a value of \<open>json\<close>: an
  object is a map from its keys to its members, so that key order plays no role.
\<close>

datatype json =
    JNull
  | JBool bool
  | JNum rat
  | JStr string
  | JArr "json list"
  | JObj "string \<Rightarrow> json option"

definition members :: "json \<Rightarrow> string \<Rightarrow> json option" where
  "members t = (case t of JObj m \<Rightarrow> m | _ \<Rightarrow> Map.empty)"

definition memberOrNew :: "json \<Rightarrow> string \<Rightarrow> json" where
  "memberOrNew t k = (case members t k of Some c \<Rightarrow> c | None \<Rightarrow> JObj Map.empty)"

text \<open>
  Modelled from the spec: setting the value at a path of keys, creating what is absent
  on the way (a value on the way that is not an object gives way to a new object).
\<close>

fun setPath :: "string list \<Rightarrow> json \<Rightarrow> json \<Rightarrow> json" where
  "setPath [] v t = v"
| "setPath (k # ks) v t = JObj ((members t)(k \<mapsto> setPath ks v (memberOrNew t k)))"


text \<open>
  Modelled from the spec: the rewriting of a body on its parse tree, every listed path
  set to the sentinel, in the order of the list.
\<close>

definition maskTree :: "string list list \<Rightarrow> json \<Rightarrow> json" where
  "maskTree ps t = fold (\<lambda>p. setPath p (JStr ''useless'')) ps t"

text \<open>The listed paths that start with the key \<open>k\<close>, without that key.\<close>

definition below :: "string \<Rightarrow> string list list \<Rightarrow> string list list" where
  "below k ps =
     concat (map (\<lambda>p. case p of [] \<Rightarrow> [] | k' # ks \<Rightarrow> if k' = k then [ks] else []) ps)"


section \<open>The lookup as the specification words it\<close>

text \<open>
  The lookup contract in the words of the specification, for comparison with
  \<open>IsRouteSkipped\<close> and \<open>GetRouteConfig\<close>: test each skip pattern in configuration order;
  if none matches, test each route pattern in configuration order, and the first match
  yields its policy; otherwise the global policy.
\<close>

definition resolveInConfigOrder ::
  "(string \<Rightarrow> string \<Rightarrow> bool) \<Rightarrow> HTTPConfig \<Rightarrow> string \<Rightarrow> bool \<times> ComputedRouteConfig" where
  "resolveInConfigOrder pm c rt =
     (let global = computeGlobal (GlobalConfig_cfg c)
      in if list_ex (\<lambda>skipRoute. MatchRoute pm rt skipRoute) (SkipRoutes_cfg c)
         then (True, global)
         else (case find (\<lambda>(routePattern, override). MatchRoute pm rt routePattern)
                      (RouteConfigs_cfg c) of
                 Some (routePattern, override) \<Rightarrow>
                   (False, mergeRouteConfig global override)
               | None \<Rightarrow> (False, global)))"

section \<open>Concrete configurations, requests and answers\<close>

text \<open>A route override that sets the test probability and nothing else.\<close>

definition probabilityOnly :: "64 word \<Rightarrow> RouteConfig" where
  "probabilityOnly p =
     \<lparr> CompareHeaders_rc = [], CompareBody_rc = [], SkipHeaders_rc = [],
       StoreReqBody_rc = [], StoreRespBodies_rc = [], SkipJSONPaths_rc = [],
       TestProbability_rc = p \<rparr>"

text \<open>The global defaults of \<open>defaultHTTP\<close>, with a test probability to choose.\<close>

definition defaultGlobal :: "64 word \<Rightarrow> GlobalConfig" where
  "defaultGlobal p =
     \<lparr> CompareHeaders_g = True, CompareBody_g = False, SkipHeaders_g = [],
       StoreReqBody_g = False, StoreRespBodies_g = True, SkipJSONPaths_g = [],
       TestProbability_g = p \<rparr>"

text \<open>A general pattern written before a specific one.\<close>

definition generalFirstConfig :: HTTPConfig where
  "generalFirstConfig =
     \<lparr> GlobalConfig_cfg = defaultGlobal 100,
       RouteConfigs_cfg =
         [(''GET:/u/*'', probabilityOnly 10), (''GET:/u/me'', probabilityOnly 100)],
       SkipRoutes_cfg = [] \<rparr>"

text \<open>The patterns of the specification's scenario 6, specific ones first.\<close>

definition specificFirstConfig :: HTTPConfig where
  "specificFirstConfig =
     \<lparr> GlobalConfig_cfg = defaultGlobal 100,
       RouteConfigs_cfg =
         [(''GET:/u/me/p'', probabilityOnly 100), (''GET:/u/*/p'', probabilityOnly 50),
          (''GET:/u/*'', probabilityOnly 10)],
       SkipRoutes_cfg = [] \<rparr>"

text \<open>A proxy with the given global test probability that skips \<open>GET /health\<close>.\<close>

definition healthSkipped :: "64 word \<Rightarrow> ComputedRouteConfigs" where
  "healthSkipped p =
     PrecomputeRouteConfigs
       \<lparr> GlobalConfig_cfg = defaultGlobal p, RouteConfigs_cfg = [],
         SkipRoutes_cfg = [''GET:/health''] \<rparr>"

definition newWriter :: ResponseWriter where
  "newWriter = \<lparr> wHeader = [], wStatus = None, wBody = [] \<rparr>"

definition getRequest :: "string \<Rightarrow> Request" where
  "getRequest p = \<lparr> Method = ''GET'', URLPath = p, URLString = p, Header_req = [] \<rparr>"

definition okResponse :: Response where
  "okResponse = \<lparr> StatusCode = 200, Header_res = [(''Content-Type'', [''text/plain''])] \<rparr>"

text \<open>The main upstream answers 200; it cannot be reached; the request body cannot be read.\<close>

definition mainAnswers :: handleIO where
  "mainAnswers =
     \<lparr> reqBodyCopy = ([], None), newMainRequest = None, mainDo = Inr okResponse,
       mainBodyCopy = (''ok'', None), writerCopy = None \<rparr>"

definition mainUnreachable :: handleIO where
  "mainUnreachable =
     \<lparr> reqBodyCopy = ([], None), newMainRequest = None,
       mainDo = Inl ''connection refused'',
       mainBodyCopy = ([], None), writerCopy = None \<rparr>"

definition bodyUnreadable :: handleIO where
  "bodyUnreadable =
     \<lparr> reqBodyCopy = ([], Some ''unexpected EOF''), newMainRequest = None,
       mainDo = Inr okResponse,
       mainBodyCopy = (''ok'', None), writerCopy = None \<rparr>"

text \<open>A server whose job queue of capacity \<open>q\<close> holds the jobs \<open>js\<close>; no worker is waiting.\<close>

definition serverWith :: "nat \<Rightarrow> upstreamTestJob list \<Rightarrow> 64 word \<Rightarrow> server" where
  "serverWith q js n =
     \<lparr> job = \<lparr> buf = js, cap = q, recvq = 0, handed = [] \<rparr>, reqCounter = n \<rparr>"

definition someJob :: upstreamTestJob where
  "someJob =
     \<lparr> req = getRequest ''/a'', route = ''GET:/a'',
       routeConfig = computeGlobal (defaultGlobal 100), reqBodyBuffer = [],
       mainRes = okResponse, mainResBody = ''ok'' \<rparr>"

text \<open>
  The bodies of the specification's scenario 4 and the body both become once \<open>ts\<close> is
  set to the sentinel, with their parse trees.  \<open>unmarshal4\<close> and \<open>sjsonSet4\<close> are the
  values of \<open>json.Unmarshal\<close> and of \<open>sjson.Set\<close> on these three documents; every
  other input is answered by an error.
\<close>

definition mainBody4 :: string where
  \<open>mainBody4 = ''{"v":1,"ts":"2025-01-01"}''\<close>

definition testBody4 :: string where
  \<open>testBody4 = ''{"v":1,"ts":"2025-02-02"}''\<close>

definition maskedBody4 :: string where
  \<open>maskedBody4 = ''{"v":1,"ts":"useless"}''\<close>

definition tree4 :: "string \<Rightarrow> json" where
  "tree4 ts = JObj (Map.empty(''v'' \<mapsto> JNum 1, ''ts'' \<mapsto> JStr ts))"

definition unmarshal4 :: "string \<Rightarrow> string + json" where
  "unmarshal4 doc =
     (if doc = mainBody4 then Inr (tree4 ''2025-01-01'')
      else if doc = testBody4 then Inr (tree4 ''2025-02-02'')
      else if doc = maskedBody4 then Inr (tree4 ''useless'')
      else Inl ''invalid character'')"

definition sjsonSet4 :: "string \<Rightarrow> string \<Rightarrow> string \<Rightarrow> string + string" where
  "sjsonSet4 doc path v =
     (if doc \<in> {mainBody4, testBody4, maskedBody4} \<and> path = ''ts'' \<and> v = ''useless''
      then Inr maskedBody4
      else Inl ''not in the table'')"

definition jsonResponse :: "int \<Rightarrow> Response" where
  "jsonResponse code =
     \<lparr> StatusCode = code, Header_res = [(''Content-Type'', [''application/json''])] \<rparr>"

definition maskPolicy :: ComputedRouteConfig where
  "maskPolicy =
     \<lparr> CompareHeaders = True, CompareBody = False, SkipHeaders = [],
       StoreReqBody = False, StoreRespBodies = True, SkipJSONPaths = [''ts''],
       TestProbability = 100 \<rparr>"

definition job4 :: upstreamTestJob where
  "job4 =
     \<lparr> req = getRequest ''/a'', route = ''GET:/a'', routeConfig = maskPolicy,
       reqBodyBuffer = [], mainRes = jsonResponse 200, mainResBody = mainBody4 \<rparr>"

text \<open>The test upstream answers with the given response and body.\<close>

definition answers :: "Response \<Rightarrow> string \<Rightarrow> jobIO" where
  "answers res body = \<lparr> newTestRequest = None, testDo = Inr res, testBodyRead = Inr body \<rparr>"



text \<open>The test upstream answers with a JSON response of the given status and body.\<close>

definition testAnswers :: "int \<Rightarrow> string \<Rightarrow> jobIO" where
  "testAnswers code body =
     \<lparr> newTestRequest = None, testDo = Inr (jsonResponse code), testBodyRead = Inr body \<rparr>"

text \<open>The headers and the policy of the specification's scenario 3.\<close>

definition mainHeaders3 :: Header where
  "mainHeaders3 = [(''Date'', [''A'']), (''X-Trace'', [''m'']), (''Etag'', [''v1''])]"

definition testHeaders3 :: Header where
  "testHeaders3 = [(''Date'', [''B'']), (''X-Trace'', [''n'']), (''Etag'', [''v2''])]"

definition skipPolicy3 :: ComputedRouteConfig where
  "skipPolicy3 =
     \<lparr> CompareHeaders = True, CompareBody = False, SkipHeaders = [''Date'', ''X-Trace''],
       StoreReqBody = False, StoreRespBodies = True, SkipJSONPaths = [],
       TestProbability = 100 \<rparr>"

section \<open>The route key round trip\<close>

lemma upper_char_colon: "upper_char c = CHR '':'' \<Longrightarrow> c = CHR '':''"
  by (auto simp add: upper_char_def split: option.splits if_splits)

lemma ToUpper_no_colon: "CHR '':'' \<notin> set m \<Longrightarrow> CHR '':'' \<notin> set (ToUpper m)"
proof
  assume nc: "CHR '':'' \<notin> set m" and "CHR '':'' \<in> set (ToUpper m)"
  then obtain c where c: "c \<in> set m" "upper_char c = CHR '':''"
    by (auto simp add: ToUpper_def)
  from c(2) have "c = CHR '':''" by (rule upper_char_colon)
  with c(1) nc show False by simp
qed

lemma SplitN2_at_first:
  "sep \<notin> set a \<Longrightarrow> SplitN2 (a @ sep # b) sep = [a, b]"
proof -
  assume a: "sep \<notin> set a"
  have t: "takeWhile (\<lambda>c. c \<noteq> sep) (a @ sep # b) = a"
    using a by (induction a) auto
  have d: "dropWhile (\<lambda>c. c \<noteq> sep) (a @ sep # b) = sep # b"
    using a by (induction a) auto
  show ?thesis by (simp add: SplitN2_def t d)
qed

text \<open>
  C10.  For every method \<open>m\<close> without a colon and every path \<open>p\<close>, parsing the formatted
  route key gives back the upper-cased method and the path.
\<close>

theorem ParseRoute_FormatRoute:
  "CHR '':'' \<notin> set m \<Longrightarrow> ParseRoute (FormatRoute m p) = (ToUpper m, p)"
  by (simp add: ParseRoute_def FormatRoute_def SplitN2_at_first ToUpper_no_colon)

theorem ParseRoute_FormatRoute_witness:
  "CHR '':'' \<notin> set ''Post'' \<and>
   ParseRoute (FormatRoute ''Post'' ''/api:v1/orders'') = (''POST'', ''/api:v1/orders'')"
  using ParseRoute_FormatRoute [of "''Post''" "''/api:v1/orders''"]
  by (simp add: ToUpper_def upper_char_def)

section \<open>Policy resolution at load time\<close>

lemma fold_update_other:
  "k \<notin> fst ` set xs \<Longrightarrow>
   map_of (fold (\<lambda>(p, r). AList.update p (f r)) xs acc) k = map_of acc k"
  by (induction xs arbitrary: acc) (auto simp add: update_conv')

lemma fold_update_member:
  "distinct (map fst xs) \<Longrightarrow> (k, r) \<in> set xs \<Longrightarrow>
   map_of (fold (\<lambda>(p, r). AList.update p (f r)) xs acc) k = Some (f r)"
proof (induction xs arbitrary: acc)
  case Nil
  then show ?case by simp
next
  case (Cons x xs)
  show ?case
  proof (cases "x = (k, r)")
    case True
    with Cons.prems have "k \<notin> fst ` set xs" by auto
    then show ?thesis using True by (simp add: fold_update_other update_conv')
  next
    case False
    with Cons.prems have "(k, r) \<in> set xs" "distinct (map fst xs)" by auto
    then show ?thesis using Cons.IH by simp
  qed
qed

lemma Routes_Precompute:
  "distinct (map fst (RouteConfigs_cfg c)) \<Longrightarrow> (k, r) \<in> set (RouteConfigs_cfg c) \<Longrightarrow>
   map_of (Routes (PrecomputeRouteConfigs c)) k
     = Some (mergeRouteConfig (computeGlobal (GlobalConfig_cfg c)) r)"
  by (simp add: PrecomputeRouteConfigs_def Let_def fold_update_member)

lemma sel_if:
  "CompareHeaders (if b then x else y) = (if b then CompareHeaders x else CompareHeaders y)"
  "CompareBody (if b then x else y) = (if b then CompareBody x else CompareBody y)"
  "StoreReqBody (if b then x else y) = (if b then StoreReqBody x else StoreReqBody y)"
  "StoreRespBodies (if b then x else y) = (if b then StoreRespBodies x else StoreRespBodies y)"
  "SkipHeaders (if b then x else y) = (if b then SkipHeaders x else SkipHeaders y)"
  "SkipJSONPaths (if b then x else y) = (if b then SkipJSONPaths x else SkipJSONPaths y)"
  "TestProbability (if b then x else y) = (if b then TestProbability x else TestProbability y)"
  by simp_all

lemma merge_CompareHeaders:
  "CompareHeaders (mergeRouteConfig g r) =
     (if CompareHeaders_rc r = ''enable'' then True
      else if CompareHeaders_rc r = ''disable'' then False else CompareHeaders g)"
  by (simp add: mergeRouteConfig_def Let_def sel_if split del: if_split cong: if_cong)

lemma merge_CompareBody:
  "CompareBody (mergeRouteConfig g r) =
     (if CompareBody_rc r = ''enable'' then True
      else if CompareBody_rc r = ''disable'' then False else CompareBody g)"
  by (simp add: mergeRouteConfig_def Let_def sel_if split del: if_split cong: if_cong)

lemma merge_StoreReqBody:
  "StoreReqBody (mergeRouteConfig g r) =
     (if StoreReqBody_rc r = ''enable'' then True
      else if StoreReqBody_rc r = ''disable'' then False else StoreReqBody g)"
  by (simp add: mergeRouteConfig_def Let_def sel_if split del: if_split cong: if_cong)

lemma merge_StoreRespBodies:
  "StoreRespBodies (mergeRouteConfig g r) =
     (if StoreRespBodies_rc r = ''enable'' then True
      else if StoreRespBodies_rc r = ''disable'' then False else StoreRespBodies g)"
  by (simp add: mergeRouteConfig_def Let_def sel_if split del: if_split cong: if_cong)

lemma merge_SkipHeaders:
  "SkipHeaders (mergeRouteConfig g r) = SkipHeaders g @ SkipHeaders_rc r"
  by (simp add: mergeRouteConfig_def Let_def sel_if split del: if_split cong: if_cong) auto

lemma merge_SkipJSONPaths:
  "SkipJSONPaths (mergeRouteConfig g r) = SkipJSONPaths g @ SkipJSONPaths_rc r"
  by (simp add: mergeRouteConfig_def Let_def sel_if split del: if_split cong: if_cong) auto

lemma merge_TestProbability:
  "TestProbability (mergeRouteConfig g r) =
     (if TestProbability_rc r = 0 then TestProbability g else TestProbability_rc r)"
  by (simp add: mergeRouteConfig_def Let_def sel_if word_greater_zero_iff split del: if_split cong: if_cong) auto

text \<open>
  C5.  For every route override \<open>r\<close> stored under a pattern of the configuration, the
  policy that \<open>PrecomputeRouteConfigs\<close> stores under that pattern has: each boolean
  field equal to the global one when the token is empty, true for \<open>enable\<close> and false for
  \<open>disable\<close>; the global test probability when the override is 0 and the override
  otherwise; and each list equal to the global entries followed by the override's.
\<close>

theorem PrecomputeRouteConfigs_resolves:
  assumes "distinct (map fst (RouteConfigs_cfg c))"
    and "(routePattern, r) \<in> set (RouteConfigs_cfg c)"
  shows "\<exists>e. map_of (Routes (PrecomputeRouteConfigs c)) routePattern = Some e
    \<and> (CompareHeaders_rc r = [] \<longrightarrow> CompareHeaders e = CompareHeaders_g (GlobalConfig_cfg c))
    \<and> (CompareHeaders_rc r = ''enable'' \<longrightarrow> CompareHeaders e)
    \<and> (CompareHeaders_rc r = ''disable'' \<longrightarrow> \<not> CompareHeaders e)
    \<and> (CompareBody_rc r = [] \<longrightarrow> CompareBody e = CompareBody_g (GlobalConfig_cfg c))
    \<and> (CompareBody_rc r = ''enable'' \<longrightarrow> CompareBody e)
    \<and> (CompareBody_rc r = ''disable'' \<longrightarrow> \<not> CompareBody e)
    \<and> (StoreReqBody_rc r = [] \<longrightarrow> StoreReqBody e = StoreReqBody_g (GlobalConfig_cfg c))
    \<and> (StoreReqBody_rc r = ''enable'' \<longrightarrow> StoreReqBody e)
    \<and> (StoreReqBody_rc r = ''disable'' \<longrightarrow> \<not> StoreReqBody e)
    \<and> (StoreRespBodies_rc r = [] \<longrightarrow> StoreRespBodies e = StoreRespBodies_g (GlobalConfig_cfg c))
    \<and> (StoreRespBodies_rc r = ''enable'' \<longrightarrow> StoreRespBodies e)
    \<and> (StoreRespBodies_rc r = ''disable'' \<longrightarrow> \<not> StoreRespBodies e)
    \<and> (TestProbability_rc r = 0 \<longrightarrow> TestProbability e = TestProbability_g (GlobalConfig_cfg c))
    \<and> (TestProbability_rc r \<noteq> 0 \<longrightarrow> TestProbability e = TestProbability_rc r)
    \<and> SkipHeaders e = SkipHeaders_g (GlobalConfig_cfg c) @ SkipHeaders_rc r
    \<and> SkipJSONPaths e = SkipJSONPaths_g (GlobalConfig_cfg c) @ SkipJSONPaths_rc r"
proof -
  let ?e = "mergeRouteConfig (computeGlobal (GlobalConfig_cfg c)) r"
  have h0: "map_of (Routes (PrecomputeRouteConfigs c)) routePattern = Some ?e"
    using assms by (rule Routes_Precompute)
  have h1: "CompareHeaders_rc r = [] \<longrightarrow> CompareHeaders ?e = CompareHeaders_g (GlobalConfig_cfg c)"
    "CompareHeaders_rc r = ''enable'' \<longrightarrow> CompareHeaders ?e"
    "CompareHeaders_rc r = ''disable'' \<longrightarrow> \<not> CompareHeaders ?e"
    by (simp_all add: merge_CompareHeaders computeGlobal_def)
  have h2: "CompareBody_rc r = [] \<longrightarrow> CompareBody ?e = CompareBody_g (GlobalConfig_cfg c)"
    "CompareBody_rc r = ''enable'' \<longrightarrow> CompareBody ?e"
    "CompareBody_rc r = ''disable'' \<longrightarrow> \<not> CompareBody ?e"
    by (simp_all add: merge_CompareBody computeGlobal_def)
  have h3: "StoreReqBody_rc r = [] \<longrightarrow> StoreReqBody ?e = StoreReqBody_g (GlobalConfig_cfg c)"
    "StoreReqBody_rc r = ''enable'' \<longrightarrow> StoreReqBody ?e"
    "StoreReqBody_rc r = ''disable'' \<longrightarrow> \<not> StoreReqBody ?e"
    by (simp_all add: merge_StoreReqBody computeGlobal_def)
  have h4: "StoreRespBodies_rc r = [] \<longrightarrow> StoreRespBodies ?e = StoreRespBodies_g (GlobalConfig_cfg c)"
    "StoreRespBodies_rc r = ''enable'' \<longrightarrow> StoreRespBodies ?e"
    "StoreRespBodies_rc r = ''disable'' \<longrightarrow> \<not> StoreRespBodies ?e"
    by (simp_all add: merge_StoreRespBodies computeGlobal_def)
  have h5: "TestProbability_rc r = 0 \<longrightarrow> TestProbability ?e = TestProbability_g (GlobalConfig_cfg c)"
    "TestProbability_rc r \<noteq> 0 \<longrightarrow> TestProbability ?e = TestProbability_rc r"
    by (simp_all add: merge_TestProbability computeGlobal_def)
  have h6: "SkipHeaders ?e = SkipHeaders_g (GlobalConfig_cfg c) @ SkipHeaders_rc r"
    "SkipJSONPaths ?e = SkipJSONPaths_g (GlobalConfig_cfg c) @ SkipJSONPaths_rc r"
    by (simp_all add: merge_SkipHeaders merge_SkipJSONPaths computeGlobal_def)
  show ?thesis
    by (rule exI [of _ ?e]) (intro conjI h0 h1 h2 h3 h4 h5 h6)
qed

theorem PrecomputeRouteConfigs_resolves_witness:
  "\<exists>e. map_of (Routes (PrecomputeRouteConfigs testConfig)) ''GET:/api/orders/*'' = Some e
     \<and> CompareHeaders e \<and> \<not> CompareBody e \<and> \<not> StoreReqBody e \<and> StoreRespBodies e
     \<and> TestProbability e = 50
     \<and> SkipHeaders e = [''Date'', ''Server'', ''Cookie'']
     \<and> SkipJSONPaths e = [''timestamp'', ''internal_id'']"
proof -
  have d: "distinct (map fst (RouteConfigs_cfg testConfig))"
    by (simp add: testConfig_def)
  have m: "(''GET:/api/orders/*'', testRouteOrders) \<in> set (RouteConfigs_cfg testConfig)"
    by (simp add: testConfig_def)
  from PrecomputeRouteConfigs_resolves [OF d m] show ?thesis
    by (simp add: testConfig_def testRouteOrders_def)
qed

section \<open>Single-segment wildcards\<close>

lemma compareSegments_index:
  "length cs = length rs \<Longrightarrow>
   compareSegments cs rs \<longleftrightarrow> (\<forall>i < length cs. cs ! i = ''*'' \<or> cs ! i = rs ! i)"
proof (induction cs rs rule: list_induct2)
  case Nil
  then show ?case by simp
next
  case (Cons c cs r rs)
  have "(\<forall>i < Suc (length cs). (c # cs) ! i = ''*'' \<or> (c # cs) ! i = (r # rs) ! i)
      \<longleftrightarrow> (c = ''*'' \<or> c = r) \<and> (\<forall>i < length cs. cs ! i = ''*'' \<or> cs ! i = rs ! i)"
    by (simp add: All_less_Suc2)
  with Cons.IH show ?case by auto
qed

lemma matchSegmentWildcards_segmentwise:
  assumes "\<not> (HasSuffix configPath ''/*''
             \<and> \<not> hasOtherWildcards (Split (Trim configPath ''/'') (CHR ''/'')))"
  shows "matchSegmentWildcards requestPath configPath \<longleftrightarrow>
           length (pathSegments requestPath) = length (pathSegments configPath)
           \<and> (\<forall>i < length (pathSegments configPath).
                 pathSegments configPath ! i = ''*''
                 \<or> pathSegments configPath ! i = pathSegments requestPath ! i)"
proof (cases "length (pathSegments requestPath) = length (pathSegments configPath)")
  case True
  then show ?thesis
    using assms compareSegments_index [of "pathSegments configPath" "pathSegments requestPath"]
    by (auto simp add: matchSegmentWildcards_def Let_def)
next
  case False
  then show ?thesis using assms by (auto simp add: matchSegmentWildcards_def Let_def)
qed

text \<open>
  C8, as the code has it.  A pattern with a \<open>*\<close> that is not a lone trailing wildcard
  matches a request path exactly when both have the same number of segments and every
  pattern segment is \<open>*\<close> or equal to the request segment at the same place.  A \<open>*\<close>
  stands for exactly one segment; nothing asks that segment to be non-empty.
\<close>

theorem matchPath_single_segment_wildcard:
  assumes "Contains configPath ''*''"
    and "\<not> (HasSuffix configPath ''/*''
             \<and> \<not> hasOtherWildcards (Split (Trim configPath ''/'') (CHR ''/'')))"
  shows "matchPath pm requestPath configPath \<longleftrightarrow>
           length (pathSegments requestPath) = length (pathSegments configPath)
           \<and> (\<forall>i < length (pathSegments configPath).
                 pathSegments configPath ! i = ''*''
                 \<or> pathSegments configPath ! i = pathSegments requestPath ! i)"
proof (cases "requestPath = configPath")
  case True
  then show ?thesis by (simp add: matchPath_def)
next
  case False
  then show ?thesis
    using assms(1) matchSegmentWildcards_segmentwise [OF assms(2), of requestPath]
    by (simp add: matchPath_def)
qed

theorem matchPath_single_segment_wildcard_witness:
  "Contains ''/u/*/p'' ''*''
   \<and> matchPath pathMatchLiteral ''/u/42/p'' ''/u/*/p'' \<and> \<not> matchPath pathMatchLiteral ''/u/42/43/p'' ''/u/*/p''"
proof -
  have c: "Contains ''/u/*/p'' ''*''"
    by (simp add: HasPrefix_def)
  have n: "\<not> (HasSuffix ''/u/*/p'' ''/*''
             \<and> \<not> hasOtherWildcards (Split (Trim ''/u/*/p'' ''/'') (CHR ''/'')))"
    by (simp add: HasSuffix_def)
  have "matchPath pathMatchLiteral ''/u/42/p'' ''/u/*/p''"
    using matchPath_single_segment_wildcard [OF c n, of pathMatchLiteral "''/u/42/p''"]
    by (simp add: pathSegments_def Trim_def All_less_Suc)
  moreover have "\<not> matchPath pathMatchLiteral ''/u/42/43/p'' ''/u/*/p''"
    using matchPath_single_segment_wildcard [OF c n, of pathMatchLiteral "''/u/42/43/p''"]
    by (simp add: pathSegments_def Trim_def)
  ultimately show ?thesis using c by simp
qed

text \<open>
  C8 as stated asks for a non-empty segment.  That fails: the request path \<open>/u//p\<close>
  has an empty middle segment, and the pattern \<open>/u/*/p\<close> matches it.
\<close>

theorem wildcard_matches_empty_segment:
  "pathSegments ''/u//p'' = [''u'', [], ''p''] \<and> matchSegmentWildcards ''/u//p'' ''/u/*/p''"
  by (simp add: matchSegmentWildcards_def pathSegments_def Trim_def HasSuffix_def)

text \<open>The example of the specification, on whole route keys.\<close>

lemma MatchRoute_examples:
  "MatchRoute pm (FormatRoute ''GET'' ''/u/42/p'') ''GET:/u/*/p''"
  "\<not> MatchRoute pm (FormatRoute ''GET'' ''/u/42/43/p'') ''GET:/u/*/p''"
  "MatchRoute pm (FormatRoute ''GET'' ''/u//p'') ''GET:/u/*/p''"
  by (simp_all add: MatchRoute_def FormatRoute_def ParseRoute_def SplitN2_def ToUpper_def
      upper_char_def matchPath_def HasPrefix_def matchSegmentWildcards_def pathSegments_def
      Trim_def HasSuffix_def)

section \<open>Header comparison\<close>

lemma map_of_fold_update_True:
  "map_of (fold (\<lambda>h. AList.update (f h) True) hs acc) k
     = (if k \<in> f ` set hs then Some True else map_of acc k)"
  by (induction hs arbitrary: acc) (auto simp add: update_conv')

lemma skipLookup_build:
  "skipLookup (buildSkipHeadersMap hs) k \<longleftrightarrow> k \<in> ToLower ` set hs"
  by (simp add: skipLookup_def buildSkipHeadersMap_def map_of_fold_update_True)

lemma fold_keys_subset:
  assumes "\<And>x acc. x \<in> set xs \<Longrightarrow> set (f x acc) \<subseteq> set acc \<union> {k. k = fst x \<and> Q k}"
  shows "set (fold f xs acc) \<subseteq> set acc \<union> {k \<in> fst ` set xs. Q k}"
  using assms
proof (induction xs arbitrary: acc)
  case Nil
  then show ?case by simp
next
  case (Cons x xs)
  have "set (fold f xs (f x acc)) \<subseteq> set (f x acc) \<union> {k \<in> fst ` set xs. Q k}"
    using Cons.prems by (intro Cons.IH) simp
  moreover have "set (f x acc) \<subseteq> set acc \<union> {k. k = fst x \<and> Q k}"
    using Cons.prems by simp
  ultimately show ?case by auto
qed

lemma compareHeaders_subset:
  "set (compareHeaders rc mainHeaders testHeaders)
     \<subseteq> {k \<in> fst ` set mainHeaders \<union> fst ` set testHeaders.
          \<not> skipLookup (buildSkipHeadersMap (SkipHeaders rc)) (ToLower k)}"
proof -
  let ?Q = "\<lambda>k. \<not> skipLookup (buildSkipHeadersMap (SkipHeaders rc)) (ToLower k)"
  let ?f1 = "\<lambda>(key, mainValues) differentHeaders.
                    if skipLookup (buildSkipHeadersMap (SkipHeaders rc)) (ToLower key) then differentHeaders
                    else (case map_of testHeaders key of
                            None \<Rightarrow> differentHeaders @ [key]
                          | Some testValues \<Rightarrow>
                              if length mainValues \<noteq> length testValues
                              then differentHeaders @ [key]
                              else if valuesDiffer mainValues testValues
                              then differentHeaders @ [key]
                              else differentHeaders)"
  let ?f2 = "\<lambda>(key, testValues) differentHeaders.
                 if skipLookup (buildSkipHeadersMap (SkipHeaders rc)) (ToLower key) then differentHeaders
                 else if map_of mainHeaders key = None then differentHeaders @ [key]
                 else differentHeaders"
  have 1: "set (fold ?f1 mainHeaders []) \<subseteq> set [] \<union> {k \<in> fst ` set mainHeaders. ?Q k}"
    by (rule fold_keys_subset) (auto split: option.splits if_splits)
  have 2: "set (fold ?f2 testHeaders acc) \<subseteq> set acc \<union> {k \<in> fst ` set testHeaders. ?Q k}" for acc
    by (rule fold_keys_subset) (auto split: option.splits if_splits)
  have "compareHeaders rc mainHeaders testHeaders = fold ?f2 testHeaders (fold ?f1 mainHeaders [])"
    by (simp add: compareHeaders_def Let_def)
  then show ?thesis using 1 2 [of "fold ?f1 mainHeaders []"] by auto
qed

text \<open>
  C9.  Every name in the list that \<open>compareHeaders\<close> returns is a header name of the main
  or of the test response, and none of them is, case-insensitively, in the policy's
  \<open>SkipHeaders\<close>.
\<close>

theorem compareHeaders_names:
  "set (compareHeaders rc mainHeaders testHeaders)
     \<subseteq> fst ` set mainHeaders \<union> fst ` set testHeaders
   \<and> (\<forall>k \<in> set (compareHeaders rc mainHeaders testHeaders).
         ToLower k \<notin> ToLower ` set (SkipHeaders rc))"
  using compareHeaders_subset [of rc mainHeaders testHeaders]
  by (auto simp add: skipLookup_build)

theorem compareHeaders_names_witness:
  "compareHeaders skipPolicy3 mainHeaders3 testHeaders3 = [''Etag'']
   \<and> ''Etag'' \<in> fst ` set mainHeaders3 \<union> fst ` set testHeaders3
   \<and> ToLower ''Etag'' \<notin> ToLower ` set (SkipHeaders skipPolicy3)"
proof -
  have e: "compareHeaders skipPolicy3 mainHeaders3 testHeaders3 = [''Etag'']"
    by (simp add: compareHeaders_def skipPolicy3_def mainHeaders3_def testHeaders3_def
        buildSkipHeadersMap_def skipLookup_def ToLower_def lower_char_def valuesDiffer_def
        Let_def)
  from compareHeaders_names [of skipPolicy3 mainHeaders3 testHeaders3] show ?thesis
    unfolding e by simp
qed

section \<open>Records stored by a comparison job\<close>

lemma fold_unchanged:
  "(\<And>x acc. x \<in> set xs \<Longrightarrow> f x acc = acc) \<Longrightarrow> fold f xs acc = acc"
  by (induction xs arbitrary: acc) simp_all

lemma valuesDiffer_same: "\<not> valuesDiffer vs vs"
  by (auto simp add: valuesDiffer_def list_ex_iff set_zip)

lemma compareHeaders_same:
  assumes "distinct (map fst h)"
  shows "compareHeaders rc h h = []"
proof -
  have m: "map_of h k = Some vs" if "(k, vs) \<in> set h" for k vs
    using assms that by simp
  show ?thesis
    unfolding compareHeaders_def Let_def
    by (subst fold_unchanged; (subst fold_unchanged)?) (auto simp add: m valuesDiffer_same)
qed

lemma storedLogs_append: "storedLogs (xs @ ys) = storedLogs xs @ storedLogs ys"
  by (induction xs rule: storedLogs.induct) simp_all

lemma storedLogs_reportBody:
  "storedLogs (reportBody j testRes eq a b) = (if eq then [] else [bodyDiffLog j testRes a b])"
  by (simp add: reportBody_def)

lemma ComparisonType_logs:
  "ComparisonType (statusDiffLog j testRes) = ''status_diff''"
  "ComparisonType (headerDiffLog j testRes ds) = ''header_diff''"
  "ComparisonType (bodyDiffLog j testRes a b) = ''body_diff''"
  "DifferentHeaders (headerDiffLog j testRes ds) = ds"
  by (simp_all add: statusDiffLog_def headerDiffLog_def bodyDiffLog_def Let_def)

lemma JSONBytesEqual_False_neq: "JSONBytesEqual u a b = Inr False \<Longrightarrow> a \<noteq> b"
  by (auto simp add: JSONBytesEqual_def split: sum.splits)

lemma comparator_same:
  "snd (chooseComparator u ct) b b \<noteq> Inr False"
  by (auto simp add: chooseComparator_def dummyBytesEqual_def dest: JSONBytesEqual_False_neq)

text \<open>
  From the choice of the comparator on, a job stores at most one record, a \<open>body_diff\<close>
  one, and only after the comparator has reported a difference.
\<close>

lemma compareBodies_logs:
  "storedLogs (fst (compareBodies u s j testRes body)) = [] \<or>
   (\<exists>a b. storedLogs (fst (compareBodies u s j testRes body)) = [bodyDiffLog j testRes a b]
      \<and> snd (chooseComparator u (HeaderGet (Header_res (mainRes j)) ''Content-Type''))
            (mainResBody j) body = Inr False)"
  by (auto simp add: compareBodies_def Let_def storedLogs_reportBody
      split: prod.splits sum.splits)

lemma compareResponses_logs:
  "storedLogs (fst (compareResponses u s j testRes body)) = []
   \<or> storedLogs (fst (compareResponses u s j testRes body)) = [statusDiffLog j testRes]
       \<and> StatusCode testRes \<noteq> StatusCode (mainRes j)
   \<or> storedLogs (fst (compareResponses u s j testRes body))
         = [headerDiffLog j testRes
              (compareHeaders (routeConfig j) (Header_res (mainRes j)) (Header_res testRes))]
       \<and> StatusCode testRes = StatusCode (mainRes j)
       \<and> CompareHeaders (routeConfig j)
       \<and> compareHeaders (routeConfig j) (Header_res (mainRes j)) (Header_res testRes) \<noteq> []
   \<or> (\<exists>a b. storedLogs (fst (compareResponses u s j testRes body)) = [bodyDiffLog j testRes a b])
       \<and> StatusCode testRes = StatusCode (mainRes j)
       \<and> (CompareHeaders (routeConfig j) \<longrightarrow>
            compareHeaders (routeConfig j) (Header_res (mainRes j)) (Header_res testRes) = [])
       \<and> snd (chooseComparator u (HeaderGet (Header_res (mainRes j)) ''Content-Type''))
            (mainResBody j) body = Inr False"
  using compareBodies_logs [of u s j testRes body]
  by (auto simp add: compareResponses_def)

lemma Do_storedLogs:
  "storedLogs (fst (Do u s j io)) =
     (case newTestRequest io of
        Some err \<Rightarrow> []
      | None \<Rightarrow>
          (case testDo io of
             Inl err \<Rightarrow> []
           | Inr testRes \<Rightarrow>
               (case testBodyRead io of
                  Inl err \<Rightarrow> []
                | Inr body \<Rightarrow> storedLogs (fst (compareResponses u s j testRes body)))))"
  by (simp add: Do_def Let_def storedLogs_append split: option.splits sum.splits prod.splits)

lemma Do_at_most_one: "length (storedLogs (fst (Do u s j io))) \<le> 1"
proof -
  have "length (storedLogs (fst (compareResponses u s j testRes body))) \<le> 1" for testRes body
    using compareResponses_logs [of u s j testRes body] by auto
  then show ?thesis
    by (simp add: Do_storedLogs split: option.splits sum.splits)
qed

lemma Do_only_on_divergence:
  assumes "l \<in> set (storedLogs (fst (Do u s j io)))"
  shows "\<exists>testRes body. testDo io = Inr testRes \<and> testBodyRead io = Inr body \<and>
     (ComparisonType l = ''status_diff'' \<and> StatusCode testRes \<noteq> StatusCode (mainRes j)
      \<or> ComparisonType l = ''header_diff''
          \<and> StatusCode testRes = StatusCode (mainRes j)
          \<and> CompareHeaders (routeConfig j)
          \<and> DifferentHeaders l
               = compareHeaders (routeConfig j) (Header_res (mainRes j)) (Header_res testRes)
          \<and> DifferentHeaders l \<noteq> []
      \<or> ComparisonType l = ''body_diff''
          \<and> StatusCode testRes = StatusCode (mainRes j)
          \<and> (CompareHeaders (routeConfig j) \<longrightarrow>
               compareHeaders (routeConfig j) (Header_res (mainRes j)) (Header_res testRes) = [])
          \<and> snd (chooseComparator u (HeaderGet (Header_res (mainRes j)) ''Content-Type''))
               (mainResBody j) body = Inr False)"
proof -
  from assms have "\<exists>testRes body. testDo io = Inr testRes \<and> testBodyRead io = Inr body
      \<and> l \<in> set (storedLogs (fst (compareResponses u s j testRes body)))"
    by (cases "newTestRequest io"; cases "testDo io"; cases "testBodyRead io")
      (simp_all add: Do_storedLogs)
  then obtain testRes body where
    io: "testDo io = Inr testRes" "testBodyRead io = Inr body"
    and l: "l \<in> set (storedLogs (fst (compareResponses u s j testRes body)))"
    by blast
  from compareResponses_logs [of u s j testRes body] l
  have "ComparisonType l = ''status_diff'' \<and> StatusCode testRes \<noteq> StatusCode (mainRes j)
      \<or> ComparisonType l = ''header_diff''
          \<and> StatusCode testRes = StatusCode (mainRes j)
          \<and> CompareHeaders (routeConfig j)
          \<and> DifferentHeaders l
               = compareHeaders (routeConfig j) (Header_res (mainRes j)) (Header_res testRes)
          \<and> DifferentHeaders l \<noteq> []
      \<or> ComparisonType l = ''body_diff''
          \<and> StatusCode testRes = StatusCode (mainRes j)
          \<and> (CompareHeaders (routeConfig j) \<longrightarrow>
               compareHeaders (routeConfig j) (Header_res (mainRes j)) (Header_res testRes) = [])
          \<and> snd (chooseComparator u (HeaderGet (Header_res (mainRes j)) ''Content-Type''))
               (mainResBody j) body = Inr False"
    by (elim disjE conjE exE) (simp_all add: ComparisonType_logs)
  with io show ?thesis by blast
qed

lemma Do_answered:
  assumes "newTestRequest io = None" and "testDo io = Inr testRes"
    and "testBodyRead io = Inr body"
  shows "fst (Do u s j io) =
           Metric (HTTPReqCounter (Itoa (StatusCode testRes)) (Method (req j))
                     ''test_upstream'' (route j) ''success'')
           # fst (compareResponses u s j testRes body)"
  using assms by (simp add: Do_def Let_def split: prod.splits)

lemma compareResponses_to_bodies:
  assumes "StatusCode testRes = StatusCode (mainRes j)"
    and "CompareHeaders (routeConfig j) \<longrightarrow>
           compareHeaders (routeConfig j) (Header_res (mainRes j)) (Header_res testRes) = []"
  shows "compareResponses u s j testRes body = compareBodies u s j testRes body"
  using assms by (auto simp add: compareResponses_def)

lemma compareBodies_equal:
  assumes "snd (chooseComparator u (HeaderGet (Header_res (mainRes j)) ''Content-Type''))
             (mainResBody j) body = Inr True"
  shows "fst (compareBodies u s j testRes body)
           = [Metric (ComparisonResults (route j) (Method (req j)) ''identical'')]"
  using assms by (auto simp add: compareBodies_def Let_def reportBody_def split: prod.splits)

lemma compareBodies_error:
  assumes "snd (chooseComparator u (HeaderGet (Header_res (mainRes j)) ''Content-Type''))
             (mainResBody j) body = Inl err"
  shows "fst (compareBodies u s j testRes body) = []"
  using assms by (auto simp add: compareBodies_def Let_def split: prod.splits)

lemma compareBodies_bytes_differ:
  assumes "\<not> fst (chooseComparator u (HeaderGet (Header_res (mainRes j)) ''Content-Type''))"
    and "mainResBody j \<noteq> body"
  shows "fst (compareBodies u s j testRes body)
           = [Metric (ComparisonResults (route j) (Method (req j)) ''body_diff''),
              Store (bodyDiffLog j testRes (mainResBody j) body)]"
  using assms
  by (auto simp add: compareBodies_def Let_def reportBody_def chooseComparator_def
      dummyBytesEqual_def split: prod.splits if_splits)

lemma compareBodies_json_differ:
  assumes "fst (chooseComparator u (HeaderGet (Header_res (mainRes j)) ''Content-Type''))"
    and "snd (chooseComparator u (HeaderGet (Header_res (mainRes j)) ''Content-Type''))
           (mainResBody j) body = Inr False"
    and "StatusCode testRes = StatusCode (mainRes j)"
    and "skipPaths s (SkipJSONPaths (routeConfig j)) (mainResBody j) body = Inr (a', b')"
    and "JSONBytesEqual u a' b' = Inr e"
  shows "fst (compareBodies u s j testRes body) = reportBody j testRes e a' b'"
  using assms by (auto simp add: compareBodies_def Let_def split: prod.splits)

text \<open>
  C6.  A comparison job stores at most one record, and a stored record names a
  divergence that is there: \<open>status_diff\<close> when the status codes differ; \<open>header_diff\<close>
  when they are equal, headers are compared and \<open>compareHeaders\<close> finds names;
  \<open>body_diff\<close> when the status codes are equal, the headers raised nothing and the chosen
  comparator reports a difference.  For a job whose test request is answered, the
  effects are, after the request counter: on differing status codes, the \<open>status_diff\<close>
  counter and record; else, on a header difference, the \<open>header_diff\<close> counter and
  record; else, when the comparator reports equal bodies, the \<open>identical\<close> counter and
  nothing more; when the byte comparator is chosen and the bodies differ, the
  \<open>body_diff\<close> counter and record; when the JSON comparator is chosen and the bodies
  still differ after the listed paths are rewritten, the \<open>body_diff\<close> counter and record
  with the rewritten bodies.  When the test response equals the main response in status,
  headers and body, the effects are the request counter and the \<open>identical\<close> counter, the
  latter left out only when the JSON comparator cannot parse the body.
\<close>

theorem Do_one_record_on_first_divergence:
  "length (storedLogs (fst (Do u s j io))) \<le> 1
   \<and> (\<forall>l \<in> set (storedLogs (fst (Do u s j io))).
         \<exists>testRes body. testDo io = Inr testRes \<and> testBodyRead io = Inr body \<and>
           (ComparisonType l = ''status_diff'' \<and> StatusCode testRes \<noteq> StatusCode (mainRes j)
            \<or> ComparisonType l = ''header_diff''
                \<and> StatusCode testRes = StatusCode (mainRes j)
                \<and> CompareHeaders (routeConfig j)
                \<and> DifferentHeaders l
                     = compareHeaders (routeConfig j) (Header_res (mainRes j))
                         (Header_res testRes)
                \<and> DifferentHeaders l \<noteq> []
            \<or> ComparisonType l = ''body_diff''
                \<and> StatusCode testRes = StatusCode (mainRes j)
                \<and> (CompareHeaders (routeConfig j) \<longrightarrow>
                     compareHeaders (routeConfig j) (Header_res (mainRes j))
                       (Header_res testRes) = [])
                \<and> snd (chooseComparator u
                         (HeaderGet (Header_res (mainRes j)) ''Content-Type''))
                     (mainResBody j) body = Inr False))
   \<and> (\<forall>testRes body.
         newTestRequest io = None \<and> testDo io = Inr testRes \<and> testBodyRead io = Inr body \<longrightarrow>
           (StatusCode testRes \<noteq> StatusCode (mainRes j) \<longrightarrow>
              fst (Do u s j io)
                = [Metric (HTTPReqCounter (Itoa (StatusCode testRes)) (Method (req j))
                             ''test_upstream'' (route j) ''success''),
                   Metric (ComparisonResults (route j) (Method (req j)) ''status_diff''),
                   Store (statusDiffLog j testRes)])
         \<and> (StatusCode testRes = StatusCode (mainRes j) \<and> CompareHeaders (routeConfig j)
              \<and> compareHeaders (routeConfig j) (Header_res (mainRes j)) (Header_res testRes)
                   \<noteq> []
            \<longrightarrow> fst (Do u s j io)
                  = [Metric (HTTPReqCounter (Itoa (StatusCode testRes)) (Method (req j))
                               ''test_upstream'' (route j) ''success''),
                     Metric (ComparisonResults (route j) (Method (req j)) ''header_diff''),
                     Store (headerDiffLog j testRes
                              (compareHeaders (routeConfig j) (Header_res (mainRes j))
                                 (Header_res testRes)))])
         \<and> (StatusCode testRes = StatusCode (mainRes j)
              \<and> (CompareHeaders (routeConfig j) \<longrightarrow>
                   compareHeaders (routeConfig j) (Header_res (mainRes j))
                     (Header_res testRes) = [])
            \<longrightarrow>
              (snd (chooseComparator u (HeaderGet (Header_res (mainRes j)) ''Content-Type''))
                 (mainResBody j) body = Inr True
               \<longrightarrow> fst (Do u s j io)
                     = [Metric (HTTPReqCounter (Itoa (StatusCode testRes)) (Method (req j))
                                  ''test_upstream'' (route j) ''success''),
                        Metric (ComparisonResults (route j) (Method (req j)) ''identical'')])
            \<and> (\<not> fst (chooseComparator u
                        (HeaderGet (Header_res (mainRes j)) ''Content-Type''))
                 \<and> mainResBody j \<noteq> body
               \<longrightarrow> fst (Do u s j io)
                     = [Metric (HTTPReqCounter (Itoa (StatusCode testRes)) (Method (req j))
                                  ''test_upstream'' (route j) ''success''),
                        Metric (ComparisonResults (route j) (Method (req j)) ''body_diff''),
                        Store (bodyDiffLog j testRes (mainResBody j) body)])
            \<and> (\<forall>a' b'.
                  fst (chooseComparator u
                         (HeaderGet (Header_res (mainRes j)) ''Content-Type''))
                  \<and> snd (chooseComparator u
                           (HeaderGet (Header_res (mainRes j)) ''Content-Type''))
                        (mainResBody j) body = Inr False
                  \<and> skipPaths s (SkipJSONPaths (routeConfig j)) (mainResBody j) body
                       = Inr (a', b')
                  \<and> JSONBytesEqual u a' b' = Inr False
               \<longrightarrow> fst (Do u s j io)
                     = [Metric (HTTPReqCounter (Itoa (StatusCode testRes)) (Method (req j))
                                  ''test_upstream'' (route j) ''success''),
                        Metric (ComparisonResults (route j) (Method (req j)) ''body_diff''),
                        Store (bodyDiffLog j testRes a' b')]))
         \<and> (StatusCode testRes = StatusCode (mainRes j)
              \<and> Header_res testRes = Header_res (mainRes j)
              \<and> distinct (map fst (Header_res (mainRes j)))
              \<and> body = mainResBody j
            \<longrightarrow> fst (Do u s j io)
                  = Metric (HTTPReqCounter (Itoa (StatusCode testRes)) (Method (req j))
                              ''test_upstream'' (route j) ''success'')
                    # (case snd (chooseComparator u
                                   (HeaderGet (Header_res (mainRes j)) ''Content-Type''))
                              (mainResBody j) (mainResBody j) of
                         Inl err \<Rightarrow> []
                       | Inr eq \<Rightarrow>
                           [Metric (ComparisonResults (route j) (Method (req j))
                                      ''identical'')])))"
proof (intro conjI ballI allI impI)
  show "length (storedLogs (fst (Do u s j io))) \<le> 1"
    by (rule Do_at_most_one)
next
  fix l
  assume "l \<in> set (storedLogs (fst (Do u s j io)))"
  then show "\<exists>testRes body. testDo io = Inr testRes \<and> testBodyRead io = Inr body \<and>
           (ComparisonType l = ''status_diff'' \<and> StatusCode testRes \<noteq> StatusCode (mainRes j)
            \<or> ComparisonType l = ''header_diff''
                \<and> StatusCode testRes = StatusCode (mainRes j)
                \<and> CompareHeaders (routeConfig j)
                \<and> DifferentHeaders l
                     = compareHeaders (routeConfig j) (Header_res (mainRes j))
                         (Header_res testRes)
                \<and> DifferentHeaders l \<noteq> []
            \<or> ComparisonType l = ''body_diff''
                \<and> StatusCode testRes = StatusCode (mainRes j)
                \<and> (CompareHeaders (routeConfig j) \<longrightarrow>
                     compareHeaders (routeConfig j) (Header_res (mainRes j))
                       (Header_res testRes) = [])
                \<and> snd (chooseComparator u
                         (HeaderGet (Header_res (mainRes j)) ''Content-Type''))
                     (mainResBody j) body = Inr False)"
    by (rule Do_only_on_divergence)
next
  fix testRes body
  assume a: "newTestRequest io = None \<and> testDo io = Inr testRes \<and> testBodyRead io = Inr body"
  then have d: "fst (Do u s j io) =
           Metric (HTTPReqCounter (Itoa (StatusCode testRes)) (Method (req j))
                     ''test_upstream'' (route j) ''success'')
           # fst (compareResponses u s j testRes body)"
    by (simp add: Do_answered)
  {
    assume "StatusCode testRes \<noteq> StatusCode (mainRes j)"
    then show "fst (Do u s j io)
                = [Metric (HTTPReqCounter (Itoa (StatusCode testRes)) (Method (req j))
                             ''test_upstream'' (route j) ''success''),
                   Metric (ComparisonResults (route j) (Method (req j)) ''status_diff''),
                   Store (statusDiffLog j testRes)]"
      by (simp add: d compareResponses_def)
  }
  {
    assume "StatusCode testRes = StatusCode (mainRes j) \<and> CompareHeaders (routeConfig j)
              \<and> compareHeaders (routeConfig j) (Header_res (mainRes j)) (Header_res testRes)
                   \<noteq> []"
    then show "fst (Do u s j io)
                  = [Metric (HTTPReqCounter (Itoa (StatusCode testRes)) (Method (req j))
                               ''test_upstream'' (route j) ''success''),
                     Metric (ComparisonResults (route j) (Method (req j)) ''header_diff''),
                     Store (headerDiffLog j testRes
                              (compareHeaders (routeConfig j) (Header_res (mainRes j))
                                 (Header_res testRes)))]"
      by (simp add: d compareResponses_def)
  }
  {
    assume b: "StatusCode testRes = StatusCode (mainRes j)
              \<and> (CompareHeaders (routeConfig j) \<longrightarrow>
                   compareHeaders (routeConfig j) (Header_res (mainRes j))
                     (Header_res testRes) = [])"
    then have c: "compareResponses u s j testRes body = compareBodies u s j testRes body"
      by (simp add: compareResponses_to_bodies)
    {
      assume "snd (chooseComparator u (HeaderGet (Header_res (mainRes j)) ''Content-Type''))
                 (mainResBody j) body = Inr True"
      then show "fst (Do u s j io)
                     = [Metric (HTTPReqCounter (Itoa (StatusCode testRes)) (Method (req j))
                                  ''test_upstream'' (route j) ''success''),
                        Metric (ComparisonResults (route j) (Method (req j)) ''identical'')]"
        by (simp add: d c compareBodies_equal)
    }
    {
      assume "\<not> fst (chooseComparator u
                        (HeaderGet (Header_res (mainRes j)) ''Content-Type''))
                 \<and> mainResBody j \<noteq> body"
      then show "fst (Do u s j io)
                     = [Metric (HTTPReqCounter (Itoa (StatusCode testRes)) (Method (req j))
                                  ''test_upstream'' (route j) ''success''),
                        Metric (ComparisonResults (route j) (Method (req j)) ''body_diff''),
                        Store (bodyDiffLog j testRes (mainResBody j) body)]"
        by (simp add: d c compareBodies_bytes_differ)
    }
    {
      fix a' b'
      assume "fst (chooseComparator u
                         (HeaderGet (Header_res (mainRes j)) ''Content-Type''))
                  \<and> snd (chooseComparator u
                           (HeaderGet (Header_res (mainRes j)) ''Content-Type''))
                        (mainResBody j) body = Inr False
                  \<and> skipPaths s (SkipJSONPaths (routeConfig j)) (mainResBody j) body
                       = Inr (a', b')
                  \<and> JSONBytesEqual u a' b' = Inr False"
      with b show "fst (Do u s j io)
                     = [Metric (HTTPReqCounter (Itoa (StatusCode testRes)) (Method (req j))
                                  ''test_upstream'' (route j) ''success''),
                        Metric (ComparisonResults (route j) (Method (req j)) ''body_diff''),
                        Store (bodyDiffLog j testRes a' b')]"
        by (simp add: d c compareBodies_json_differ [where e = False] reportBody_def)
    }
  }
  {
    assume i: "StatusCode testRes = StatusCode (mainRes j)
              \<and> Header_res testRes = Header_res (mainRes j)
              \<and> distinct (map fst (Header_res (mainRes j)))
              \<and> body = mainResBody j"
    then have "compareHeaders (routeConfig j) (Header_res (mainRes j)) (Header_res testRes) = []"
      by (simp add: compareHeaders_same)
    with i have c: "compareResponses u s j testRes body
                      = compareBodies u s j testRes (mainResBody j)"
      by (simp add: compareResponses_to_bodies)
    show "fst (Do u s j io)
                  = Metric (HTTPReqCounter (Itoa (StatusCode testRes)) (Method (req j))
                              ''test_upstream'' (route j) ''success'')
                    # (case snd (chooseComparator u
                                   (HeaderGet (Header_res (mainRes j)) ''Content-Type''))
                              (mainResBody j) (mainResBody j) of
                         Inl err \<Rightarrow> []
                       | Inr eq \<Rightarrow>
                           [Metric (ComparisonResults (route j) (Method (req j))
                                      ''identical'')])"
    proof (cases "snd (chooseComparator u (HeaderGet (Header_res (mainRes j)) ''Content-Type''))
                              (mainResBody j) (mainResBody j)")
      case (Inl err)
      then show ?thesis by (simp add: d c compareBodies_error)
    next
      case (Inr eq)
      with comparator_same [of u "HeaderGet (Header_res (mainRes j)) ''Content-Type''"
                               "mainResBody j"]
      have "snd (chooseComparator u (HeaderGet (Header_res (mainRes j)) ''Content-Type''))
                              (mainResBody j) (mainResBody j) = Inr True"
        by (cases eq) simp_all
      then show ?thesis by (simp add: d c compareBodies_equal)
    qed
  }
qed


theorem Do_one_record_on_first_divergence_witness:
  "storedLogs (fst (Do unmarshal4 sjsonSet4 job4 (testAnswers 500 testBody4)))
     = [statusDiffLog job4 (jsonResponse 500)]
   \<and> storedLogs (fst (Do unmarshal4 sjsonSet4 someJob (answers okResponse ''ko'')))
     = [bodyDiffLog someJob okResponse ''ok'' ''ko'']
   \<and> storedLogs (fst (Do unmarshal4 sjsonSet4 job4 (testAnswers 200 mainBody4))) = []
   \<and> Metric (ComparisonResults ''GET:/a'' ''GET'' ''identical'')
       \<in> set (fst (Do unmarshal4 sjsonSet4 job4 (testAnswers 200 mainBody4)))"
proof -
  have io1: "newTestRequest (testAnswers 500 testBody4) = None
      \<and> testDo (testAnswers 500 testBody4) = Inr (jsonResponse 500)
      \<and> testBodyRead (testAnswers 500 testBody4) = Inr testBody4"
    by (simp add: testAnswers_def)
  have io2: "newTestRequest (testAnswers 200 mainBody4) = None
      \<and> testDo (testAnswers 200 mainBody4) = Inr (jsonResponse 200)
      \<and> testBodyRead (testAnswers 200 mainBody4) = Inr mainBody4"
    by (simp add: testAnswers_def)
  have io3: "newTestRequest (answers okResponse ''ko'') = None
      \<and> testDo (answers okResponse ''ko'') = Inr okResponse
      \<and> testBodyRead (answers okResponse ''ko'') = Inr ''ko''"
    by (simp add: answers_def)
  have st: "StatusCode (jsonResponse 500) \<noteq> StatusCode (mainRes job4)"
    by (simp add: job4_def jsonResponse_def)
  have same: "StatusCode (jsonResponse 200) = StatusCode (mainRes job4)
      \<and> Header_res (jsonResponse 200) = Header_res (mainRes job4)
      \<and> distinct (map fst (Header_res (mainRes job4)))
      \<and> mainBody4 = mainResBody job4"
    by (simp add: job4_def jsonResponse_def)
  have plain: "StatusCode okResponse = StatusCode (mainRes someJob)
      \<and> (CompareHeaders (routeConfig someJob) \<longrightarrow>
           compareHeaders (routeConfig someJob) (Header_res (mainRes someJob))
             (Header_res okResponse) = [])"
    by (simp add: someJob_def okResponse_def compareHeaders_same)
  have bytes: "\<not> fst (chooseComparator unmarshal4
                        (HeaderGet (Header_res (mainRes someJob)) ''Content-Type''))
      \<and> mainResBody someJob \<noteq> ''ko''"
    by (simp add: someJob_def okResponse_def HeaderGet_def chooseComparator_def ToLower_def
        lower_char_def)
  from Do_one_record_on_first_divergence
         [of unmarshal4 sjsonSet4 job4 "testAnswers 500 testBody4"] io1 st
  have a: "fst (Do unmarshal4 sjsonSet4 job4 (testAnswers 500 testBody4))
     = [Metric (HTTPReqCounter (Itoa (StatusCode (jsonResponse 500))) (Method (req job4))
                  ''test_upstream'' (route job4) ''success''),
        Metric (ComparisonResults (route job4) (Method (req job4)) ''status_diff''),
        Store (statusDiffLog job4 (jsonResponse 500))]"
    by blast
  from Do_one_record_on_first_divergence
         [of unmarshal4 sjsonSet4 someJob "answers okResponse ''ko''"] io3 plain bytes
  have b: "fst (Do unmarshal4 sjsonSet4 someJob (answers okResponse ''ko''))
     = [Metric (HTTPReqCounter (Itoa (StatusCode okResponse)) (Method (req someJob))
                  ''test_upstream'' (route someJob) ''success''),
        Metric (ComparisonResults (route someJob) (Method (req someJob)) ''body_diff''),
        Store (bodyDiffLog someJob okResponse (mainResBody someJob) ''ko'')]"
    by blast
  from Do_one_record_on_first_divergence
         [of unmarshal4 sjsonSet4 job4 "testAnswers 200 mainBody4"] io2 same
  have c: "fst (Do unmarshal4 sjsonSet4 job4 (testAnswers 200 mainBody4))
     = Metric (HTTPReqCounter (Itoa (StatusCode (jsonResponse 200))) (Method (req job4))
                 ''test_upstream'' (route job4) ''success'')
       # (case snd (chooseComparator unmarshal4
                      (HeaderGet (Header_res (mainRes job4)) ''Content-Type''))
                 (mainResBody job4) (mainResBody job4) of
            Inl err \<Rightarrow> []
          | Inr eq \<Rightarrow>
              [Metric (ComparisonResults (route job4) (Method (req job4)) ''identical'')])"
    by blast
  have v: "snd (chooseComparator unmarshal4
                      (HeaderGet (Header_res (mainRes job4)) ''Content-Type''))
                 (mainResBody job4) (mainResBody job4) = Inr True"
    by (simp add: job4_def jsonResponse_def HeaderGet_def chooseComparator_def ToLower_def
        lower_char_def JSONBytesEqual_def unmarshal4_def)
  show ?thesis
    unfolding a b c v by (simp add: someJob_def job4_def getRequest_def)
qed

section \<open>Failures on the serving path\<close>

lemma eval_defs:
  "FormatRoute ''GET'' ''/api/orders'' = ''GET:/api/orders''"
  "FormatRoute ''GET'' ''/health'' = ''GET:/health''"
  by (simp_all add: FormatRoute_def ToUpper_def upper_char_def)

lemma skipped_eval:
  "\<not> IsRouteSkipped pathMatchLiteral (healthSkipped p) ''GET:/api/orders''"
  "IsRouteSkipped pathMatchLiteral (healthSkipped p) ''GET:/health''"
  by (simp_all add: IsRouteSkipped_def healthSkipped_def PrecomputeRouteConfigs_def Let_def
      MatchRoute_def ParseRoute_def SplitN2_def matchPath_def HasPrefix_def pathMatchLiteral_def)

text \<open>
  C3.  On a route that is not skipped, the handler returns without writing a status
  when the main upstream cannot be reached and when the request body cannot be read, so
  the client gets 200; on a skipped route the same upstream failure is answered by 502.
\<close>

theorem handle_swallows_errors:
  "wStatus (hWriter (handle pathMatchLiteral (healthSkipped 100) (serverWith 2048 [] 0) newWriter
              (getRequest ''/api/orders'') mainUnreachable)) = None
   \<and> clientStatus (hWriter (handle pathMatchLiteral (healthSkipped 100) (serverWith 2048 [] 0)
              newWriter (getRequest ''/api/orders'') mainUnreachable)) = 200
   \<and> clientStatus (hWriter (handle pathMatchLiteral (healthSkipped 100) (serverWith 2048 [] 0)
              newWriter (getRequest ''/api/orders'') bodyUnreadable)) = 200
   \<and> clientStatus (hWriter (handle pathMatchLiteral (healthSkipped 100) (serverWith 2048 [] 0)
              newWriter (getRequest ''/health'') mainUnreachable)) = 502"
  by (simp add: handle_def getRequest_def eval_defs skipped_eval mainUnreachable_def
      bodyUnreadable_def clientStatus_def newWriter_def handleSkipped_def httpError_def
      Write_def WriteHeader_def Let_def)

section \<open>Sending the job to the workers\<close>

lemma handle_served:
  assumes "\<not> IsRouteSkipped pm cc (FormatRoute (Method r) (URLPath r))"
    and "snd (reqBodyCopy io) = None" and "newMainRequest io = None"
    and "mainDo io = Inr mres"
    and "snd (mainBodyCopy io) = None" and "writerCopy io = None"
  shows "handle pm cc s writer r io =
     sampleAndEnqueue pm cc s
       (Write (WriteHeader (copyHeaders (Header_res mres) writer) (StatusCode mres))
          (fst (mainBodyCopy io)))
       r (FormatRoute (Method r) (URLPath r)) (fst (reqBodyCopy io)) mres
       (fst (mainBodyCopy io))
       [HTTPReqCounter (Itoa (StatusCode mres)) (Method r) ''main_upstream''
          (FormatRoute (Method r) (URLPath r)) ''success'']"
  using assms by (simp add: handle_def Let_def)

lemma fold_preserves:
  "(\<And>x a. g (f x a) = g a) \<Longrightarrow> g (fold f xs a) = g a"
  by (induction xs arbitrary: a) simp_all

lemma wStatus_copyHeaders: "wStatus (copyHeaders h w) = wStatus w"
  unfolding copyHeaders_def by (rule fold_preserves) (simp split: prod.splits)

lemma wBody_copyHeaders: "wBody (copyHeaders h w) = wBody w"
  unfolding copyHeaders_def by (rule fold_preserves) (simp split: prod.splits)

lemma GetRouteConfig_healthSkipped:
  "GetRouteConfig pm (healthSkipped p) rt = computeGlobal (defaultGlobal p)"
  by (simp add: GetRouteConfig_def healthSkipped_def PrecomputeRouteConfigs_def Let_def)

text \<open>
  C4, as the code has it.  When a request is served and sampled, the handler sends the
  job on the channel: the job goes to a waiting worker or to the end of the queue and the
  handler returns, or, when the queue is full and no worker waits, the handler waits on
  the send and the queue stays as it is.  In each case the client has the main upstream's
  status and body, and the only counter incremented is the success counter.
\<close>

theorem handle_send_blocks_when_full:
  assumes "\<not> IsRouteSkipped pm cc (FormatRoute (Method r) (URLPath r))"
    and "snd (reqBodyCopy io) = None" and "newMainRequest io = None"
    and "mainDo io = Inr mres"
    and "snd (mainBodyCopy io) = None" and "writerCopy io = None"
    and "inBucket (reqCounter s + 1)
           (TestProbability (GetRouteConfig pm cc (FormatRoute (Method r) (URLPath r))))"
    and "wStatus writer = None"
  shows "(0 < recvq (job s) \<longrightarrow>
            hExit (handle pm cc s writer r io) = Returned
            \<and> buf (job (hServer (handle pm cc s writer r io))) = buf (job s)
            \<and> handed (job (hServer (handle pm cc s writer r io)))
                = handed (job s) @
                  [\<lparr> req = r, route = FormatRoute (Method r) (URLPath r),
                     routeConfig = GetRouteConfig pm cc (FormatRoute (Method r) (URLPath r)),
                     reqBodyBuffer = fst (reqBodyCopy io), mainRes = mres,
                     mainResBody = fst (mainBodyCopy io) \<rparr>])
       \<and> (recvq (job s) = 0 \<and> length (buf (job s)) < cap (job s) \<longrightarrow>
            hExit (handle pm cc s writer r io) = Returned
            \<and> buf (job (hServer (handle pm cc s writer r io)))
                = buf (job s) @
                  [\<lparr> req = r, route = FormatRoute (Method r) (URLPath r),
                     routeConfig = GetRouteConfig pm cc (FormatRoute (Method r) (URLPath r)),
                     reqBodyBuffer = fst (reqBodyCopy io), mainRes = mres,
                     mainResBody = fst (mainBodyCopy io) \<rparr>])
       \<and> (recvq (job s) = 0 \<and> cap (job s) \<le> length (buf (job s)) \<longrightarrow>
            hExit (handle pm cc s writer r io) = BlockedOnSend
            \<and> job (hServer (handle pm cc s writer r io)) = job s)
       \<and> hMetrics (handle pm cc s writer r io)
            = [HTTPReqCounter (Itoa (StatusCode mres)) (Method r) ''main_upstream''
                 (FormatRoute (Method r) (URLPath r)) ''success'']
       \<and> wStatus (hWriter (handle pm cc s writer r io)) = Some (StatusCode mres)
       \<and> wBody (hWriter (handle pm cc s writer r io)) = wBody writer @ fst (mainBodyCopy io)"
proof -
  note h = handle_served [OF assms(1-6), of s writer]
  have w: "wStatus (copyHeaders (Header_res mres) writer) = None"
    using assms(8) by (simp add: wStatus_copyHeaders)
  show ?thesis
    unfolding h using assms(7) w
    by (simp add: sampleAndEnqueue_def Let_def chanSend_def Write_def WriteHeader_def
        wBody_copyHeaders)
qed

text \<open>
  C4 as stated has the job dropped and the handler return.  That fails: with a queue of
  capacity 1 that holds one job and no waiting worker, the handler does not return.
\<close>

theorem handle_blocks_on_full_queue:
  "hExit (handle pathMatchLiteral (healthSkipped 100) (serverWith 1 [someJob] 0) newWriter
            (getRequest ''/api/orders'') mainAnswers) = BlockedOnSend"
  by (simp add: handle_def getRequest_def eval_defs skipped_eval mainAnswers_def
      serverWith_def sampleAndEnqueue_def Let_def chanSend_def inBucket_def
      GetRouteConfig_healthSkipped computeGlobal_def defaultGlobal_def)

theorem handle_send_blocks_when_full_witness:
  "hExit (handle pathMatchLiteral (healthSkipped 100) (serverWith 1 [] 0) newWriter
            (getRequest ''/api/orders'') mainAnswers) = Returned
   \<and> length (buf (job (hServer (handle pathMatchLiteral (healthSkipped 100) (serverWith 1 [] 0)
            newWriter (getRequest ''/api/orders'') mainAnswers)))) = 1
   \<and> wStatus (hWriter (handle pathMatchLiteral (healthSkipped 100) (serverWith 1 [] 0)
            newWriter (getRequest ''/api/orders'') mainAnswers)) = Some 200"
proof -
  have 1: "\<not> IsRouteSkipped pathMatchLiteral (healthSkipped 100)
               (FormatRoute (Method (getRequest ''/api/orders''))
                  (URLPath (getRequest ''/api/orders'')))"
    by (simp add: getRequest_def eval_defs skipped_eval)
  have 2: "snd (reqBodyCopy mainAnswers) = None" "newMainRequest mainAnswers = None"
    "mainDo mainAnswers = Inr okResponse" "snd (mainBodyCopy mainAnswers) = None"
    "writerCopy mainAnswers = None"
    by (simp_all add: mainAnswers_def)
  have 3: "inBucket (reqCounter (serverWith 1 [] 0) + 1)
             (TestProbability (GetRouteConfig pathMatchLiteral (healthSkipped 100)
                (FormatRoute (Method (getRequest ''/api/orders''))
                   (URLPath (getRequest ''/api/orders'')))))"
    by (simp add: GetRouteConfig_healthSkipped computeGlobal_def defaultGlobal_def
        serverWith_def inBucket_def)
  have 4: "wStatus newWriter = None"
    by (simp add: newWriter_def)
  from handle_send_blocks_when_full [OF 1 2 3 4] show ?thesis
    by (simp add: serverWith_def okResponse_def)
qed

section \<open>The sampler\<close>

lemma inBucket_zero: "inBucket n 0"
proof -
  have "unat (n mod 100) < 100"
    by (simp add: unat_mod)
  moreover have "unat (- 1 :: 64 word) = 2 ^ 64 - 1"
    by (simp add: unsigned_minus_1_eq_mask mask_eq_exp_minus_1)
  ultimately show ?thesis by (simp add: inBucket_def word_less_nat_alt)
qed

text \<open>
  C1.  The sampler at its two ends, on the code.  With \<open>p = 0\<close> the subtraction wraps
  around and every counter value is admitted; with \<open>p = 100\<close> the counter value 99 is
  not admitted.  So a proxy with a global test probability of 0 puts the job of its
  first request into the queue, and a proxy with a test probability of 100 leaves the
  request that brings the counter to 99 out.
\<close>

theorem sampler_misses_both_ends:
  "(\<forall>n. inBucket n 0) \<and> \<not> inBucket 99 100
   \<and> length (buf (job (hServer (handle pathMatchLiteral (healthSkipped 0) (serverWith 2048 [] 0)
         newWriter (getRequest ''/api/orders'') mainAnswers)))) = 1
   \<and> buf (job (hServer (handle pathMatchLiteral (healthSkipped 100) (serverWith 2048 [] 98)
         newWriter (getRequest ''/api/orders'') mainAnswers))) = []"
proof -
  have 1: "\<forall>n. inBucket n 0" by (simp add: inBucket_zero)
  have 2: "\<not> inBucket 99 100" by (simp add: inBucket_def)
  have 3: "length (buf (job (hServer (handle pathMatchLiteral (healthSkipped 0)
         (serverWith 2048 [] 0) newWriter (getRequest ''/api/orders'') mainAnswers)))) = 1"
    by (simp add: handle_def getRequest_def eval_defs skipped_eval mainAnswers_def
      serverWith_def sampleAndEnqueue_def Let_def chanSend_def inBucket_zero
      GetRouteConfig_healthSkipped computeGlobal_def defaultGlobal_def)
  have 4: "buf (job (hServer (handle pathMatchLiteral (healthSkipped 100)
         (serverWith 2048 [] 98) newWriter (getRequest ''/api/orders'') mainAnswers))) = []"
    by (simp add: handle_def getRequest_def eval_defs skipped_eval mainAnswers_def
      serverWith_def sampleAndEnqueue_def Let_def chanSend_def inBucket_def
      GetRouteConfig_healthSkipped computeGlobal_def defaultGlobal_def)
  from 1 2 3 4 show ?thesis by simp
qed

section \<open>Lookup order\<close>

lemma routes_generalFirst:
  "Routes (PrecomputeRouteConfigs generalFirstConfig) =
     [(''GET:/u/*'', mergeRouteConfig (computeGlobal (defaultGlobal 100)) (probabilityOnly 10)),
      (''GET:/u/me'', mergeRouteConfig (computeGlobal (defaultGlobal 100)) (probabilityOnly 100))]"
  by (simp add: PrecomputeRouteConfigs_def generalFirstConfig_def Let_def)

lemma routes_specificFirst:
  "Routes (PrecomputeRouteConfigs specificFirstConfig) =
     [(''GET:/u/me/p'', mergeRouteConfig (computeGlobal (defaultGlobal 100)) (probabilityOnly 100)),
      (''GET:/u/*/p'', mergeRouteConfig (computeGlobal (defaultGlobal 100)) (probabilityOnly 50)),
      (''GET:/u/*'', mergeRouteConfig (computeGlobal (defaultGlobal 100)) (probabilityOnly 10))]"
  by (simp add: PrecomputeRouteConfigs_def specificFirstConfig_def Let_def)

lemma merge_probabilityOnly:
  "p \<noteq> 0 \<Longrightarrow> TestProbability (mergeRouteConfig g (probabilityOnly p)) = p"
  by (simp add: mergeRouteConfig_def probabilityOnly_def Let_def word_greater_zero_iff)

lemma match_evals:
  "MatchRoute pm ''GET:/u/me'' ''GET:/u/*''"
  "MatchRoute pm ''GET:/u/42/p'' ''GET:/u/*''"
  "MatchRoute pm ''GET:/u/42/p'' ''GET:/u/*/p''"
  "\<not> MatchRoute pathMatchLiteral ''GET:/u/42/p'' ''GET:/u/me/p''"
  by (simp_all add: MatchRoute_def ParseRoute_def SplitN2_def matchPath_def HasPrefix_def
      matchSegmentWildcards_def HasSuffix_def TrimSuffix_def hasOtherWildcards_def Trim_def
      pathSegments_def pathMatchLiteral_def)

text \<open>
  C2.  The lookup of the code against the lookup in configuration order.  With the
  general pattern \<open>GET:/u/*\<close> written before \<open>GET:/u/me\<close>, configuration order gives
  the request \<open>GET /u/me\<close> the probability 10, and the code, which tries the literal key
  first, gives it 100.  With the patterns of scenario 6 and the map enumerated in the
  reverse order, the request \<open>GET /u/42/p\<close> gets 10 instead of 50.
\<close>

theorem GetRouteConfig_ignores_config_order:
  "TestProbability (snd (resolveInConfigOrder pathMatchLiteral generalFirstConfig ''GET:/u/me'')) = 10
   \<and> TestProbability (GetRouteConfig pathMatchLiteral
         (PrecomputeRouteConfigs generalFirstConfig) ''GET:/u/me'') = 100
   \<and> TestProbability (snd (resolveInConfigOrder pathMatchLiteral specificFirstConfig
         ''GET:/u/42/p'')) = 50
   \<and> TestProbability (GetRouteConfig pathMatchLiteral
         ((PrecomputeRouteConfigs specificFirstConfig)
            \<lparr>Routes := rev (Routes (PrecomputeRouteConfigs specificFirstConfig))\<rparr>)
         ''GET:/u/42/p'') = 10"
proof -
  have 1: "TestProbability (snd (resolveInConfigOrder pathMatchLiteral generalFirstConfig ''GET:/u/me'')) = 10"
    by (simp add: resolveInConfigOrder_def generalFirstConfig_def Let_def match_evals
        merge_probabilityOnly)
  have 2: "TestProbability (GetRouteConfig pathMatchLiteral
         (PrecomputeRouteConfigs generalFirstConfig) ''GET:/u/me'') = 100"
    by (simp add: GetRouteConfig_def routes_generalFirst merge_probabilityOnly)
  have 3: "TestProbability (snd (resolveInConfigOrder pathMatchLiteral specificFirstConfig
         ''GET:/u/42/p'')) = 50"
    by (simp add: resolveInConfigOrder_def specificFirstConfig_def Let_def match_evals
        merge_probabilityOnly)
  have 4: "TestProbability (GetRouteConfig pathMatchLiteral
         ((PrecomputeRouteConfigs specificFirstConfig)
            \<lparr>Routes := rev (Routes (PrecomputeRouteConfigs specificFirstConfig))\<rparr>)
         ''GET:/u/42/p'') = 10"
    by (simp add: GetRouteConfig_def routes_specificFirst match_evals merge_probabilityOnly)
  from 1 2 3 4 show ?thesis by simp
qed

section \<open>Masking JSON paths\<close>

lemma members_JObj [simp]: "members (JObj m) = m"
  by (simp add: members_def)

lemma maskTree_simps [simp]:
  "maskTree [] t = t"
  "maskTree (p # ps) t = maskTree ps (setPath p (JStr ''useless'') t)"
  by (simp_all add: maskTree_def)

lemma below_simps [simp]:
  "below k [] = []"
  "below k ([] # ps) = below k ps"
  "below k ((k' # ks) # ps) = (if k' = k then ks # below k ps else below k ps)"
  by (simp_all add: below_def)








end
